theory Spec2Isabelle
  imports Complex_Main "HOL-Library.Log_Nat" "HOL-Library.Monad_Syntax"
begin

section \<open>Python values used by the audit engine\<close>

text \<open>
  A Python \<open>str\<close> is modelled as a \<open>string\<close>, one list element per code point, so that
  \<open>length\<close> is Python's \<open>len\<close>; the element type covers the code points below 256.
  An \<open>Optional[str]\<close> is a \<open>string option\<close>, and Python's truth test on it
  (\<open>if not title\<close>) is false for \<open>None\<close> and for the empty string.
\<close>

definition truthy :: "string option \<Rightarrow> bool" where
  "truthy v = (case v of None \<Rightarrow> False | Some s \<Rightarrow> s \<noteq> [])"

definition startswith :: "string \<Rightarrow> string \<Rightarrow> bool" where
  "startswith s p = (take (length p) s = p)"

text \<open>\<open>contains s p\<close> is Python's \<open>p in s\<close> on strings.\<close>

fun contains :: "string \<Rightarrow> string \<Rightarrow> bool" where
  "contains [] p = (p = [])"
| "contains (c # cs) p = (startswith (c # cs) p \<or> contains cs p)"

definition lower_char :: "char \<Rightarrow> char" where
  "lower_char c =
     (let n = (of_char c :: nat)
      in if (65 \<le> n \<and> n \<le> 90) \<or> (192 \<le> n \<and> n \<le> 222 \<and> n \<noteq> 215)
         then char_of (n + 32) else c)"

definition lower :: "string \<Rightarrow> string" where
  "lower s = map lower_char s"

text \<open>The characters \<open>str.split()\<close> and \<open>str.isspace()\<close> treat as whitespace.\<close>

definition is_space :: "char \<Rightarrow> bool" where
  "is_space c =
     (let n = (of_char c :: nat)
      in (9 \<le> n \<and> n \<le> 13) \<or> (28 \<le> n \<and> n \<le> 32) \<or> n = 133 \<or> n = 160)"

text \<open>
  \<open>text.split()\<close> with no argument: the maximal runs of non-whitespace characters.
  The scan carries the word read so far, reversed.
\<close>

fun split_from :: "string \<Rightarrow> string \<Rightarrow> string list" where
  "split_from cur [] = (if cur = [] then [] else [rev cur])"
| "split_from cur (c # cs) =
     (if is_space c
      then (if cur = [] then split_from [] cs else rev cur # split_from [] cs)
      else split_from (c # cur) cs)"

definition split :: "string \<Rightarrow> string list" where
  "split s = split_from [] s"

fun join :: "string \<Rightarrow> string list \<Rightarrow> string" where
  "join sep [] = []"
| "join sep [w] = w"
| "join sep (w # v # ws) = w @ sep @ join sep (v # ws)"

text \<open>\<open>str(n)\<close> for an integer, as the f-strings of the messages print it.\<close>

fun str_nat :: "nat \<Rightarrow> string" where
  "str_nat n =
     (if n < 10 then [char_of (48 + n)]
      else str_nat (n div 10) @ [char_of (48 + n mod 10)])"

declare str_nat.simps [simp del]

definition str_int :: "int \<Rightarrow> string" where
  "str_int i = (if i < 0 then CHR ''-'' # str_nat (nat (- i)) else str_nat (nat i))"

subsection \<open>Floats\<close>

text \<open>
  A Python \<open>float\<close> is an IEEE 754 double. A finite double is modelled by the rational
  number it denotes, and every arithmetic operation is the exact operation followed by
  \<open>fl\<close>, rounding to the nearest number with a 53-bit significand, ties to the even
  significand. The exponent range is not modelled: no value in the engine leaves it.
  \<open>round_half_even\<close> is also Python's \<open>round(x)\<close> on a float, which rounds the exact
  value of \<open>x\<close> to the nearest integer, ties to even.
\<close>

definition round_half_even :: "rat \<Rightarrow> int" where
  "round_half_even y =
     (let f = \<lfloor>y\<rfloor>; r = y - of_int f
      in if r < 1 / 2 then f else if 1 / 2 < r then f + 1
         else if even f then f else f + 1)"

text \<open>For \<open>x > 0\<close>, the exponent \<open>e\<close> with \<open>2 powi e \<le> x < 2 powi (e + 1)\<close>.\<close>

definition float_exponent :: "rat \<Rightarrow> int" where
  "float_exponent x =
     (if 1 \<le> x then bitlen \<lfloor>x\<rfloor> - 1
      else let b = bitlen \<lfloor>1 / x\<rfloor>
           in if x = 2 powi (1 - b) then 1 - b else - b)"

definition fl :: "rat \<Rightarrow> rat" where
  "fl x =
     (if x = 0 then 0
      else let u = 2 powi (float_exponent \<bar>x\<bar> - 52)
           in of_int (round_half_even (x / u)) * u)"

text \<open>\<open>int(x)\<close> on a float truncates towards zero.\<close>

definition py_int :: "rat \<Rightarrow> int" where
  "py_int x = (if 0 \<le> x then \<lfloor>x\<rfloor> else \<lceil>x\<rceil>)"

section \<open>Data model\<close>

text \<open>
  The dictionaries the crawler and the analyzers exchange. An issue is the dictionary a
  failed check reports; the sitemap check's error issue has neither code nor impact, and
  two issues have no recommendation, hence the optional fields.
\<close>

record issue =
  issue_type :: string
  issue_code :: "string option"
  issue_message :: string
  issue_recommendation :: "string option"
  issue_impact :: "string option"

text \<open>The result of one check: \<open>{"passed": ..., "issue": ..., "deduction": ...}\<close>.\<close>

record check_result =
  passed :: bool
  issue_of :: "issue option"
  deduction :: int

text \<open>The result of a check that reports a list of issues with one combined deduction.\<close>

record multi_result =
  m_passed :: bool
  m_issues :: "issue list"
  m_deduction :: int

text \<open>
  What an analyzer returns. \<open>checks\<close> is the dictionary from check name to its outcome, in
  insertion order; \<open>None\<close> is Python's \<open>None\<close> (not evaluated). The \<open>data\<close> entry, which
  only repeats facts of the page for display, is left out.
\<close>

record report =
  r_score :: int
  r_issues :: "issue list"
  r_checks :: "(string \<times> bool option) list"

record image =
  img_src :: string
  img_alt :: string
  has_alt :: bool
  img_loading :: string
  img_width :: string
  img_height :: string

record link =
  link_url :: string
  link_text :: string
  link_rel :: "string list"

record script =
  script_src :: string
  script_async :: bool
  script_defer :: bool

record stylesheet =
  css_href :: string

text \<open>
  The page dictionary the crawler returns, with the entries the analyzers read. The last
  three are read by the mobile score but never written by the crawler, so they are
  optional.
\<close>

record page_data =
  pd_url :: string
  pd_status_code :: int
  pd_headers :: "(string \<times> string) list"
  pd_redirects :: "string list"
  pd_title :: "string option"
  pd_meta_description :: "string option"
  pd_canonical :: "string option"
  pd_robots_meta :: "string option"
  pd_viewport_meta :: bool
  pd_og_tags :: "string \<rightharpoonup> string"
  pd_headings :: "string \<rightharpoonup> string list"
  pd_internal_links :: "link list"
  pd_external_links :: "link list"
  pd_images :: "image list"
  pd_word_count :: int
  pd_text_content :: string
  pd_scripts :: "script list"
  pd_stylesheets :: "stylesheet list"
  pd_has_schema :: bool
  pd_schema_types :: "string list"
  pd_lang :: "string option"
  pd_small_touch_targets :: "int option"
  pd_small_text_count :: "int option"
  pd_horizontal_scroll :: "bool option"

section \<open>Crawler\<close>

text \<open>
  The parsed page: a tree of text nodes and tags, each tag with its name, its attributes
  and its children. \<open>soup\<close> is the list of top-level nodes. Comments and the like, which
  neither \<open>find_all\<close> nor \<open>get_text\<close> returns, are not part of the tree.
\<close>

datatype node = Text string | Tag string "(string \<times> string) list" "node list"

type_synonym soup = "node list"

text \<open>The tags of a subtree in document order, the node itself first.\<close>

fun elements :: "node \<Rightarrow> node list" where
  "elements (Text s) = []"
| "elements (Tag n as cs) = Tag n as cs # concat (map elements cs)"

definition named :: "string list \<Rightarrow> node \<Rightarrow> bool" where
  "named names e = (case e of Text s \<Rightarrow> False | Tag n as cs \<Rightarrow> n \<in> set names)"

text \<open>\<open>soup.find_all(name)\<close>, and \<open>soup([name, ...])\<close> for a list of names.\<close>

definition find_all :: "string list \<Rightarrow> soup \<Rightarrow> node list" where
  "find_all names sp = filter (named names) (concat (map elements sp))"

text \<open>\<open>tag.get(key)\<close>: the attribute's value, or \<open>None\<close> when the tag has no such attribute.\<close>

definition attr :: "node \<Rightarrow> string \<Rightarrow> string option" where
  "attr e k = (case e of Text s \<Rightarrow> None | Tag n as cs \<Rightarrow> map_of as k)"

text \<open>\<open>tag.get(key, '')\<close>.\<close>

definition attr_or_empty :: "node \<Rightarrow> string \<Rightarrow> string" where
  "attr_or_empty e k = (case attr e k of None \<Rightarrow> [] | Some v \<Rightarrow> v)"

text \<open>
  The dictionary built for one \<open>img\<close> tag. \<open>urljoin\<close> is the library's URL resolution,
  a parameter of the model.
\<close>

definition image_record :: "(string \<Rightarrow> string \<Rightarrow> string) \<Rightarrow> string \<Rightarrow> node \<Rightarrow> image" where
  "image_record urljoin base_url img =
     \<lparr>img_src = urljoin base_url (attr_or_empty img ''src''),
      img_alt = attr_or_empty img ''alt'',
      has_alt = truthy (attr img ''alt''),
      img_loading = attr_or_empty img ''loading'',
      img_width = attr_or_empty img ''width'',
      img_height = attr_or_empty img ''height''\<rparr>"

fun collect_images :: "(string \<Rightarrow> string \<Rightarrow> string) \<Rightarrow> string \<Rightarrow> node list \<Rightarrow> image list" where
  "collect_images urljoin base_url [] = []"
| "collect_images urljoin base_url (img # rest) =
     (let src = attr_or_empty img ''src''
      in if src \<noteq> [] then image_record urljoin base_url img # collect_images urljoin base_url rest
         else collect_images urljoin base_url rest)"

definition get_images :: "(string \<Rightarrow> string \<Rightarrow> string) \<Rightarrow> soup \<Rightarrow> string \<Rightarrow> image list" where
  "get_images urljoin sp base_url =
     take 100 (collect_images urljoin base_url (find_all [''img''] sp))"

text \<open>
  \<open>element.decompose()\<close> for every element of \<open>soup([names])\<close>: each subtree whose root
  has one of the names is removed from the tree.
\<close>

fun decompose :: "string list \<Rightarrow> node \<Rightarrow> node" where
  "decompose names (Text s) = Text s"
| "decompose names (Tag n as cs) =
     Tag n as (map (decompose names) (filter (\<lambda>c. \<not> named names c) cs))"

definition decompose_all :: "string list \<Rightarrow> soup \<Rightarrow> soup" where
  "decompose_all names sp = map (decompose names) (filter (\<lambda>c. \<not> named names c) sp)"

text \<open>\<open>soup.get_text(separator)\<close>: the text nodes in document order, joined.\<close>

fun strings :: "node \<Rightarrow> string list" where
  "strings (Text s) = [s]"
| "strings (Tag n as cs) = concat (map strings cs)"

definition get_text :: "string \<Rightarrow> soup \<Rightarrow> string" where
  "get_text separator sp = join separator (concat (map strings sp))"

definition removed_tags :: "string list" where
  "removed_tags = [''script'', ''style'', ''nav'', ''footer'', ''header'']"

text \<open>
  \<open>_get_text_content\<close> changes the tree it is given, so the model returns the tree as
  well. \<open>visible_text\<close> is its local \<open>text\<close> after the whitespace clean-up, before the
  final slice.
\<close>

definition visible_text :: "soup \<Rightarrow> string" where
  "visible_text sp =
     (let sp = decompose_all removed_tags sp;
          text = get_text '' '' sp
      in join '' '' (split text))"

definition get_text_content :: "soup \<Rightarrow> string \<times> soup" where
  "get_text_content sp = (take 10000 (visible_text sp), decompose_all removed_tags sp)"

definition get_word_count :: "soup \<Rightarrow> int \<times> soup" where
  "get_word_count sp =
     (let (text, sp) = get_text_content sp;
          wrds = split text
      in (int (length wrds), sp))"

text \<open>
  The entries \<open>word_count\<close> and \<open>text_content\<close> of the page dictionary, in the order
  \<open>crawl\<close> computes them on the one tree; nothing before them changes the tree.
\<close>

definition crawl_content :: "soup \<Rightarrow> int \<times> string" where
  "crawl_content sp =
     (let (wc, sp) = get_word_count sp;
          (tc, sp) = get_text_content sp
      in (wc, tc))"

section \<open>On-page analyzer\<close>

definition pass :: check_result where
  "pass = \<lparr>passed = True, issue_of = None, deduction = 0\<rparr>"

definition fail :: "string \<Rightarrow> string \<Rightarrow> string \<Rightarrow> string option \<Rightarrow> string \<Rightarrow> int \<Rightarrow> check_result" where
  "fail ty code msg rec imp d =
     \<lparr>passed = False,
      issue_of = Some \<lparr>issue_type = ty, issue_code = Some code, issue_message = msg,
                       issue_recommendation = rec, issue_impact = Some imp\<rparr>,
      deduction = d\<rparr>"

definition check_title :: "string option \<Rightarrow> check_result" where
  "check_title title =
     (if \<not> truthy title then
        fail ''error'' ''missing_title'' ''Missing title tag''
          (Some ''Add a unique, descriptive title tag (50-60 characters)'') ''high'' 20
      else let len = length (the title) in
        if len < 30 then
          fail ''warning'' ''title_too_short''
            (''Title is too short ('' @ str_nat len @ '' characters)'')
            (Some ''Title should be 50-60 characters for optimal display'') ''medium'' 5
        else if len > 60 then
          fail ''warning'' ''title_too_long''
            (''Title is too long ('' @ str_nat len @ '' characters)'')
            (Some ''Title may be truncated in search results. Keep it under 60 characters'')
            ''low'' 3
        else pass)"

definition check_meta_description :: "string option \<Rightarrow> check_result" where
  "check_meta_description description =
     (if \<not> truthy description then
        fail ''error'' ''missing_meta_description'' ''Missing meta description''
          (Some ''Add a compelling meta description (150-160 characters)'') ''high'' 15
      else let len = length (the description) in
        if len < 70 then
          fail ''warning'' ''meta_description_too_short''
            (''Meta description is too short ('' @ str_nat len @ '' characters)'')
            (Some ''Meta description should be 150-160 characters'') ''medium'' 5
        else if len > 160 then
          fail ''warning'' ''meta_description_too_long''
            (''Meta description is too long ('' @ str_nat len @ '' characters)'')
            (Some ''Meta description may be truncated. Keep it under 160 characters'')
            ''low'' 3
        else pass)"

text \<open>\<open>headings.get(level, [])\<close>.\<close>

definition get_list :: "(string \<rightharpoonup> 'a list) \<Rightarrow> string \<Rightarrow> 'a list" where
  "get_list d k = (case d k of None \<Rightarrow> [] | Some v \<Rightarrow> v)"

definition check_h1 :: "(string \<rightharpoonup> string list) \<Rightarrow> check_result" where
  "check_h1 hs =
     (let h1s = get_list hs ''h1'' in
      if h1s = [] then
        fail ''error'' ''missing_h1'' ''No H1 heading found''
          (Some ''Add exactly one H1 heading that describes the page content'') ''high'' 15
      else if length h1s > 1 then
        fail ''warning'' ''multiple_h1''
          (''Multiple H1 headings found ('' @ str_nat (length h1s) @ '')'')
          (Some ''Use only one H1 heading per page'') ''medium'' 5
      else pass)"

text \<open>The arrows in the recommendation of the source are written \<open>->\<close> here.\<close>

definition check_heading_hierarchy :: "(string \<rightharpoonup> string list) \<Rightarrow> check_result" where
  "check_heading_hierarchy hs =
     (let has_h1 = (get_list hs ''h1'' \<noteq> []);
          has_h2 = (get_list hs ''h2'' \<noteq> []);
          has_h3 = (get_list hs ''h3'' \<noteq> [])
      in if \<not> has_h1 \<and> (has_h2 \<or> has_h3) then
        fail ''warning'' ''broken_heading_hierarchy''
          ''Heading hierarchy is broken (H2/H3 without H1)''
          (Some ''Maintain proper heading hierarchy (H1 -> H2 -> H3)'') ''medium'' 5
      else pass)"

text \<open>
  The share of images without alt text is a float: the quotient of the two counts, then
  times 100, each rounded. The message prints it with no decimals.
\<close>

definition check_images :: "image list \<Rightarrow> check_result" where
  "check_images imgs =
     (if imgs = [] then pass
      else let missing_alt = filter (\<lambda>img. \<not> has_alt img) imgs;
               missing_count = length missing_alt
        in if missing_count > 0 then
             let percentage = fl (fl (of_nat missing_count / of_nat (length imgs)) * 100)
             in if percentage > 50 then
                  fail ''error'' ''many_images_missing_alt''
                    (str_nat missing_count @ '' images missing alt text (''
                       @ str_int (round_half_even percentage) @ ''%)'')
                    (Some ''Add descriptive alt text to all images for accessibility and SEO'')
                    ''high'' 15
                else
                  fail ''warning'' ''images_missing_alt''
                    (str_nat missing_count @ '' images missing alt text'')
                    (Some ''Add descriptive alt text to all images'') ''medium'' 5
           else pass)"

definition check_content :: "int \<Rightarrow> check_result" where
  "check_content wc =
     (if wc < 300 then
        fail ''warning'' ''thin_content'' (''Content is thin ('' @ str_int wc @ '' words)'')
          (Some ''Add more substantive content (aim for 800+ words for blog posts)'')
          ''medium'' 10
      else pass)"

definition check_internal_links :: "link list \<Rightarrow> check_result" where
  "check_internal_links links =
     (if length links < 2 then
        fail ''warning'' ''few_internal_links'' ''Page has few internal links''
          (Some ''Add more internal links to help users and search engines navigate'')
          ''medium'' 5
      else pass)"

definition check_og_tags :: "(string \<rightharpoonup> string) \<Rightarrow> check_result" where
  "check_og_tags og =
     (let required = [''title'', ''description'', ''image''];
          missing = filter (\<lambda>tag. og tag = None) required
      in if missing \<noteq> [] then
        fail ''recommendation'' ''missing_og_tags''
          (''Missing Open Graph tags: '' @ join '', '' missing)
          (Some ''Add Open Graph tags for better social media sharing'') ''low'' 3
      else pass)"

subsection \<open>The scoring loop shared by the analyzers\<close>

text \<open>
  Every analyzer starts from score 100 and no issues, and after each check stores
  \<open>checks[name] = passed\<close> and, when the check did not pass, appends its issue and
  subtracts its deduction. Every failing result of the checks carries an issue.
\<close>

definition start :: report where
  "start = \<lparr>r_score = 100, r_issues = [], r_checks = []\<rparr>"

definition record_check :: "string \<Rightarrow> check_result \<Rightarrow> report \<Rightarrow> report" where
  "record_check name res rep =
     (let rep = rep\<lparr>r_checks := r_checks rep @ [(name, Some (passed res))]\<rparr>
      in if \<not> passed res then
           rep\<lparr>r_issues := r_issues rep @ (case issue_of res of None \<Rightarrow> [] | Some i \<Rightarrow> [i]),
               r_score := r_score rep - deduction res\<rparr>
         else rep)"

definition record_multi :: "string \<Rightarrow> multi_result \<Rightarrow> report \<Rightarrow> report" where
  "record_multi name res rep =
     (let rep = rep\<lparr>r_checks := r_checks rep @ [(name, Some (m_passed res))]\<rparr>
      in if \<not> m_passed res then
           rep\<lparr>r_issues := r_issues rep @ m_issues res,
               r_score := r_score rep - m_deduction res\<rparr>
         else rep)"

definition finish :: "report \<Rightarrow> report" where
  "finish rep = rep\<lparr>r_score := max 0 (r_score rep)\<rparr>"

definition onpage_analyze :: "page_data \<Rightarrow> report" where
  "onpage_analyze page =
     (let rep = record_check ''title'' (check_title (pd_title page)) start;
          rep = record_check ''metaDescription''
                  (check_meta_description (pd_meta_description page)) rep;
          rep = record_check ''h1'' (check_h1 (pd_headings page)) rep;
          rep = record_check ''headingHierarchy''
                  (check_heading_hierarchy (pd_headings page)) rep;
          rep = record_check ''imageAlt'' (check_images (pd_images page)) rep;
          rep = record_check ''contentLength'' (check_content (pd_word_count page)) rep;
          rep = record_check ''internalLinks''
                  (check_internal_links (pd_internal_links page)) rep;
          rep = record_check ''openGraph'' (check_og_tags (pd_og_tags page)) rep
      in finish rep)"

section \<open>Technical analyzer\<close>

text \<open>
  The analyzer's surroundings. \<open>urlparse\<close> is the library's URL parser, of which the
  analyzers read scheme, network location and path. An HTTP request either raises or
  returns a response; of a response the checks read the status code and the content-type
  header. Opening the client of a probe can raise as well, which is the outer
  \<open>Raises\<close> of \<open>robots_client\<close>, \<open>sitemap_client\<close> and \<open>sensitive_client\<close>; a client that
  opened maps each requested URL to the outcome of the request.
\<close>

record parsed_url =
  scheme :: string
  netloc :: string
  path :: string

record response =
  resp_status :: int
  resp_content_type :: "string option"

datatype 'a attempt = Raises | Returns 'a

type_synonym client = "string \<Rightarrow> response attempt"

record env =
  urlparse :: "string \<Rightarrow> parsed_url"
  robots_client :: "client attempt"
  sitemap_client :: "client attempt"
  sensitive_client :: "client attempt"

text \<open>
  A canonical URL whose path differs from the page's passes with an informational issue,
  which the analyzer never reports, as it appends the issue of failed checks only.
\<close>

definition check_canonical :: "env \<Rightarrow> string \<Rightarrow> page_data \<Rightarrow> check_result" where
  "check_canonical e u page =
     (let c = pd_canonical page in
      if \<not> truthy c then
        fail ''error'' ''missing_canonical'' ''Missing canonical tag''
          (Some ''Add a canonical tag to specify the preferred URL for this page'') ''high'' 15
      else if path (urlparse e (the c)) \<noteq> path (urlparse e u) then
        \<lparr>passed = True,
         issue_of = Some \<lparr>issue_type = ''warning'', issue_code = Some ''canonical_mismatch'',
                          issue_message = ''Canonical URL ('' @ the c @ '') differs from current URL'',
                          issue_recommendation = Some ''Verify this is intentional'',
                          issue_impact = Some ''low''\<rparr>,
         deduction = 0\<rparr>
      else pass)"

definition check_robots :: "page_data \<Rightarrow> check_result" where
  "check_robots page =
     (let robots = pd_robots_meta page in
      if truthy robots \<and> contains (lower (the robots)) ''noindex'' then
        fail ''warning'' ''noindex'' ''Page is set to noindex''
          (Some ''Remove noindex if you want this page to be indexed'') ''high'' 5
      else pass)"

definition origin :: "parsed_url \<Rightarrow> string" where
  "origin parsed = scheme parsed @ ''://'' @ netloc parsed"

definition check_robots_txt :: "env \<Rightarrow> string \<Rightarrow> check_result" where
  "check_robots_txt e u =
     (let robots_url = origin (urlparse e u) @ ''/robots.txt'';
          robots_txt_error =
            \<lparr>passed = False,
             issue_of = Some \<lparr>issue_type = ''warning'', issue_code = Some ''robots_txt_error'',
                              issue_message = ''Could not access robots.txt'',
                              issue_recommendation = None, issue_impact = Some ''low''\<rparr>,
             deduction = 3\<rparr>
      in case robots_client e of
           Raises \<Rightarrow> robots_txt_error
         | Returns get \<Rightarrow>
             (case get robots_url of
                Raises \<Rightarrow> robots_txt_error
              | Returns r \<Rightarrow>
                  if resp_status r = 200 then pass
                  else fail ''warning'' ''missing_robots_txt'' ''robots.txt not found''
                         (Some ''Add a robots.txt file to control crawler access'')
                         ''medium'' 5))"

text \<open>
  The loop over the two sitemap URLs: a request that raises is skipped
  (\<open>except: continue\<close>), a response that is not a 200 with \<open>xml\<close> in its content type
  leads to the next URL, and the first good response ends the check.
\<close>

fun sitemap_found :: "client \<Rightarrow> string list \<Rightarrow> bool" where
  "sitemap_found get [] = False"
| "sitemap_found get (sitemap_url # rest) =
     (case get sitemap_url of
        Raises \<Rightarrow> sitemap_found get rest
      | Returns r \<Rightarrow>
          if resp_status r = 200
             \<and> contains (case resp_content_type r of None \<Rightarrow> [] | Some ct \<Rightarrow> ct) ''xml''
          then True else sitemap_found get rest)"

definition check_sitemap :: "env \<Rightarrow> string \<Rightarrow> check_result" where
  "check_sitemap e u =
     (let parsed = urlparse e u;
          sitemap_urls = [origin parsed @ ''/sitemap.xml'', origin parsed @ ''/sitemap_index.xml'']
      in case sitemap_client e of
           Raises \<Rightarrow>
             \<lparr>passed = False,
              issue_of = Some \<lparr>issue_type = ''error'', issue_code = None,
                               issue_message = ''Sitemap check failed'',
                               issue_recommendation = None, issue_impact = None\<rparr>,
              deduction = 3\<rparr>
         | Returns get \<Rightarrow>
             if sitemap_found get sitemap_urls then pass
             else fail ''warning'' ''missing_sitemap'' ''XML sitemap not found''
                    (Some ''Add an XML sitemap to help search engines discover your pages'')
                    ''medium'' 5)"

definition technical_check_https :: "string \<Rightarrow> check_result" where
  "technical_check_https u =
     (if \<not> startswith u ''https://'' then
        fail ''error'' ''no_https'' ''Site is not using HTTPS''
          (Some ''Migrate to HTTPS for security and SEO benefits'') ''high'' 20
      else pass)"

definition check_redirects :: "page_data \<Rightarrow> check_result" where
  "check_redirects page =
     (let rs = pd_redirects page in
      if length rs > 2 then
        fail ''warning'' ''redirect_chain''
          (''Redirect chain detected ('' @ str_nat (length rs) @ '' redirects)'')
          (Some ''Reduce redirect chain to a single redirect'') ''medium'' 10
      else pass)"

definition check_status_code :: "page_data \<Rightarrow> check_result" where
  "check_status_code page =
     (let status = pd_status_code page in
      if status \<noteq> 0 \<and> status \<ge> 400 then
        \<lparr>passed = False,
         issue_of = Some \<lparr>issue_type = ''error'', issue_code = Some ''error_status'',
                          issue_message = ''Page returned status code '' @ str_int status,
                          issue_recommendation = None, issue_impact = Some ''high''\<rparr>,
         deduction = 30\<rparr>
      else pass)"

definition check_language :: "page_data \<Rightarrow> check_result" where
  "check_language page =
     (if \<not> truthy (pd_lang page) then
        fail ''warning'' ''missing_lang'' ''Missing language attribute on HTML tag''
          (Some ''Add lang attribute to help search engines understand the page language'')
          ''low'' 3
      else pass)"

definition check_schema :: "page_data \<Rightarrow> check_result" where
  "check_schema page =
     (if \<not> pd_has_schema page then
        fail ''recommendation'' ''no_structured_data'' ''No structured data (Schema.org) found''
          (Some ''Add structured data to enhance search results appearance'') ''medium'' 5
      else pass)"

definition technical_analyze :: "env \<Rightarrow> string \<Rightarrow> page_data \<Rightarrow> report" where
  "technical_analyze e u page =
     (let rep = record_check ''canonical'' (check_canonical e u page) start;
          rep = record_check ''robotsMeta'' (check_robots page) rep;
          rep = record_check ''robotsTxt'' (check_robots_txt e u) rep;
          rep = record_check ''sitemap'' (check_sitemap e u) rep;
          rep = record_check ''https'' (technical_check_https u) rep;
          rep = record_check ''redirectChain'' (check_redirects page) rep;
          rep = record_check ''statusCode'' (check_status_code page) rep;
          rep = record_check ''language'' (check_language page) rep;
          rep = record_check ''structuredData'' (check_schema page) rep
      in finish rep)"

section \<open>Security analyzer\<close>

definition security_check_https :: "string \<Rightarrow> check_result" where
  "security_check_https u =
     (if \<not> startswith u ''https://'' then
        fail ''error'' ''no_https'' ''Site is not using HTTPS''
          (Some (''Migrate to HTTPS immediately. It'' @ [CHR 0x27] @ ''s a ranking factor.''))
          ''high'' 25
      else pass)"

text \<open>One step of the header check: a missing header adds its issue and its deduction.\<close>

definition report_missing :: "bool \<Rightarrow> issue \<Rightarrow> int \<Rightarrow> issue list \<times> int \<Rightarrow> issue list \<times> int" where
  "report_missing missing i d acc =
     (if missing then (fst acc @ [i], snd acc + d) else acc)"

definition advice :: "string \<Rightarrow> string \<Rightarrow> string \<Rightarrow> string \<Rightarrow> string \<Rightarrow> issue" where
  "advice ty code msg rec imp =
     \<lparr>issue_type = ty, issue_code = Some code, issue_message = msg,
      issue_recommendation = Some rec, issue_impact = Some imp\<rparr>"

definition check_security_headers :: "(string \<times> string) list \<Rightarrow> multi_result" where
  "check_security_headers hdrs =
     (let headers_lower = map (\<lambda>(k, v). (lower k, v)) hdrs;
          absent = (\<lambda>h. h \<notin> set (map fst headers_lower));
          acc = ([], 0);
          acc = report_missing (absent ''x-content-type-options'')
                  (advice ''warning'' ''missing_x_content_type''
                     ''Missing X-Content-Type-Options header''
                     (''Add '' @ [CHR 0x27] @ ''X-Content-Type-Options: nosniff''
                        @ [CHR 0x27] @ '' header'') ''low'') 2 acc;
          acc = report_missing
                  (absent ''x-frame-options'' \<and> absent ''content-security-policy'')
                  (advice ''warning'' ''missing_x_frame_options''
                     ''Missing X-Frame-Options header''
                     ''Add X-Frame-Options to prevent clickjacking'' ''medium'') 3 acc;
          acc = report_missing (absent ''strict-transport-security'')
                  (advice ''warning'' ''missing_hsts''
                     ''Missing Strict-Transport-Security header''
                     ''Add HSTS header for HTTPS enforcement'' ''medium'') 5 acc;
          acc = report_missing (absent ''content-security-policy'')
                  (advice ''recommendation'' ''missing_csp''
                     ''Missing Content-Security-Policy header''
                     ''Implement CSP to prevent XSS attacks'' ''medium'') 3 acc
      in \<lparr>m_passed = (length (fst acc) = 0), m_issues = fst acc, m_deduction = snd acc\<rparr>)"

definition check_mixed_content :: "page_data \<Rightarrow> check_result" where
  "check_mixed_content page =
     (if \<not> startswith (pd_url page) ''https://'' then pass
      else let http_images = filter (\<lambda>img. startswith (img_src img) ''http://'') (pd_images page);
               http_scripts = filter (\<lambda>s. startswith (script_src s) ''http://'') (pd_scripts page);
               http_styles = filter (\<lambda>s. startswith (css_href s) ''http://'') (pd_stylesheets page);
               total_mixed = length http_images + length http_scripts + length http_styles
        in if total_mixed > 0 then
             fail ''error'' ''mixed_content''
               (''Mixed content detected ('' @ str_nat total_mixed
                  @ '' HTTP resources on HTTPS page)'')
               (Some ''Update all resources to use HTTPS'') ''high'' 15
           else pass)"

definition sensitive_paths :: "string list" where
  "sensitive_paths =
     [''/.env'', ''/.git/config'', ''/wp-config.php.bak'', ''/phpinfo.php'', ''/.htaccess'',
      ''/server-status'']"

text \<open>The loop over the sensitive paths: a request that raises is skipped.\<close>

fun probe_paths :: "client \<Rightarrow> string \<Rightarrow> string list \<Rightarrow> issue list \<times> int \<Rightarrow> issue list \<times> int" where
  "probe_paths get base_url [] acc = acc"
| "probe_paths get base_url (p # ps) acc =
     probe_paths get base_url ps
       (case get (base_url @ p) of
          Raises \<Rightarrow> acc
        | Returns r \<Rightarrow>
            if resp_status r = 200 then
              (fst acc @ [advice ''error'' ''exposed_sensitive_file''
                            (''Sensitive file exposed: '' @ p)
                            ''Block access to this file immediately'' ''high''],
               snd acc + 10)
            else acc)"

definition check_sensitive_paths :: "env \<Rightarrow> string \<Rightarrow> multi_result" where
  "check_sensitive_paths e u =
     (let base_url = origin (urlparse e u);
          acc = (case sensitive_client e of
                   Raises \<Rightarrow> ([], 0)
                 | Returns get \<Rightarrow> probe_paths get base_url sensitive_paths ([], 0))
      in \<lparr>m_passed = (length (fst acc) = 0), m_issues = fst acc, m_deduction = snd acc\<rparr>)"

definition security_analyze :: "env \<Rightarrow> string \<Rightarrow> page_data \<Rightarrow> report" where
  "security_analyze e u page =
     (let rep = record_check ''https'' (security_check_https u) start;
          rep = record_multi ''securityHeaders'' (check_security_headers (pd_headers page)) rep;
          rep = record_check ''noMixedContent'' (check_mixed_content page) rep;
          rep = record_multi ''noSensitivePaths'' (check_sensitive_paths e u) rep
      in finish rep)"

section \<open>Performance analyzer\<close>

text \<open>
  The metrics provider's answer, as far as the analyzer reads it. A JSON number is the
  rational it denotes, \<open>Null\<close> is JSON's \<open>null\<close>, and a key that is absent is \<open>None\<close>.
  \<open>ps_json\<close> is \<open>None\<close> when decoding the body raises. Comparing \<open>null\<close> with a number
  raises in Python, which is \<open>None\<close> in \<open>exceeds\<close> and \<open>score_or\<close>.
\<close>

datatype jval = Null | Num rat

record audit =
  numeric_value :: "jval option"
  display_value :: "string option"
  audit_score :: "jval option"

record lighthouse =
  performance_score :: "jval option"
  audits :: "string \<rightharpoonup> audit"

record pagespeed_response =
  ps_status :: int
  ps_json :: "lighthouse option"

definition get_fallback_analysis :: "string \<Rightarrow> report" where
  "get_fallback_analysis u =
     \<lparr>r_score = 50,
      r_issues = [\<lparr>issue_type = ''info'', issue_code = Some ''pagespeed_unavailable'',
                   issue_message = ''PageSpeed Insights API not available'',
                   issue_recommendation =
                     Some ''Configure PAGESPEED_API_KEY for detailed performance analysis'',
                   issue_impact = Some ''low''\<rparr>],
      r_checks = [(''lcp'', None), (''fcp'', None), (''cls'', None),
                  (''imageOptimization'', None), (''bundleSize'', None),
                  (''lazyLoading'', None)]\<rparr>"

text \<open>\<open>m and m.get("numericValue", 0) > bound\<close> for a metric \<open>m = audits.get(name, {})\<close>.\<close>

definition exceeds :: "audit option \<Rightarrow> rat \<Rightarrow> bool option" where
  "exceeds m bound =
     (case m of
        None \<Rightarrow> Some False
      | Some a \<Rightarrow>
          (case numeric_value a of
             None \<Rightarrow> Some False
           | Some Null \<Rightarrow> None
           | Some (Num x) \<Rightarrow> Some (x > bound)))"

text \<open>\<open>a.get("score", dflt)\<close> for an audit \<open>a = audits.get(name, {})\<close>, in a comparison.\<close>

definition score_or :: "audit option \<Rightarrow> rat \<Rightarrow> rat option" where
  "score_or a dflt =
     (case a of
        None \<Rightarrow> Some dflt
      | Some a \<Rightarrow>
          (case audit_score a of
             None \<Rightarrow> Some dflt
           | Some Null \<Rightarrow> None
           | Some (Num x) \<Rightarrow> Some x))"

definition shown :: "audit option \<Rightarrow> string" where
  "shown m =
     (case m of
        None \<Rightarrow> ''None''
      | Some a \<Rightarrow> (case display_value a of None \<Rightarrow> ''None'' | Some d \<Rightarrow> d))"

text \<open>One metric check: on failure the issue is appended and the check is false.\<close>

definition metric_check :: "string \<Rightarrow> bool \<Rightarrow> issue \<Rightarrow> report \<Rightarrow> report" where
  "metric_check name bad i rep =
     (if bad then rep\<lparr>r_issues := r_issues rep @ [i], r_checks := r_checks rep @ [(name, Some False)]\<rparr>
      else rep\<lparr>r_checks := r_checks rep @ [(name, Some True)]\<rparr>)"

text \<open>
  The analysis of a decoded answer; \<open>None\<close> when it raises. The score is
  \<open>int((score or 0) * 100)\<close>, a float product truncated.
\<close>

definition analyze_lighthouse :: "lighthouse \<Rightarrow> report option" where
  "analyze_lighthouse lh =
     (let perf = (case performance_score lh of
                    None \<Rightarrow> 0 | Some Null \<Rightarrow> 0 | Some (Num x) \<Rightarrow> py_int (fl (x * 100)));
          lcp = audits lh ''largest-contentful-paint'';
          cls = audits lh ''cumulative-layout-shift'';
          fcp = audits lh ''first-contentful-paint''
      in do {
         slow_lcp \<leftarrow> exceeds lcp 2500;
         high_cls \<leftarrow> exceeds cls (fl (1 / 10));
         slow_fcp \<leftarrow> exceeds fcp 1800;
         img_score \<leftarrow> score_or (audits lh ''uses-optimized-images'') 1;
         large \<leftarrow> exceeds (audits lh ''total-byte-weight'') 2000000;
         lazy_score \<leftarrow> score_or (audits lh ''offscreen-images'') 0;
         Some
          (let rep = \<lparr>r_score = perf, r_issues = [], r_checks = []\<rparr>;
               rep = metric_check ''lcp'' slow_lcp
                       (advice ''error'' ''slow_lcp''
                          (''Largest Contentful Paint is slow ('' @ shown lcp @ '')'')
                          ''Optimize images, remove render-blocking resources'' ''high'') rep;
               rep = metric_check ''cls'' high_cls
                       (advice ''warning'' ''high_cls''
                          (''Cumulative Layout Shift is high ('' @ shown cls @ '')'')
                          ''Specify image dimensions, avoid dynamic content insertion''
                          ''medium'') rep;
               rep = metric_check ''fcp'' slow_fcp
                       (advice ''warning'' ''slow_fcp''
                          (''First Contentful Paint is slow ('' @ shown fcp @ '')'')
                          ''Reduce server response time, optimize critical rendering path''
                          ''medium'') rep;
               rep = metric_check ''imageOptimization'' (img_score < fl (9 / 10))
                       (advice ''warning'' ''unoptimized_images'' ''Images are not optimized''
                          ''Compress images and use modern formats (WebP)'' ''medium'') rep;
               rep = metric_check ''bundleSize'' large
                       (advice ''warning'' ''large_bundle'' ''Page size is too large''
                          ''Reduce JavaScript bundle size, lazy load non-critical resources''
                          ''medium'') rep
           in rep\<lparr>r_checks := r_checks rep @ [(''lazyLoading'', Some (lazy_score \<ge> fl (9 / 10)))]\<rparr>)
       })"

text \<open>
  \<open>api_key\<close> is the configured credential (empty when none is), \<open>provider\<close> the outcome
  of the request to the metrics provider.
\<close>

definition performance_analyze :: "string \<Rightarrow> pagespeed_response attempt \<Rightarrow> string \<Rightarrow> report" where
  "performance_analyze api_key provider u =
     (if api_key = [] then get_fallback_analysis u
      else case provider of
             Raises \<Rightarrow> get_fallback_analysis u
           | Returns resp \<Rightarrow>
               if ps_status resp \<noteq> 200 then get_fallback_analysis u
               else (case ps_json resp of
                       None \<Rightarrow> get_fallback_analysis u
                     | Some lh \<Rightarrow>
                         (case analyze_lighthouse lh of
                            None \<Rightarrow> get_fallback_analysis u
                          | Some rep \<Rightarrow> rep)))"

section \<open>Mobile score and overall score\<close>

definition plain_issue :: "string \<Rightarrow> string \<Rightarrow> string \<Rightarrow> issue" where
  "plain_issue ty msg imp =
     \<lparr>issue_type = ty, issue_code = None, issue_message = msg,
      issue_recommendation = None, issue_impact = Some imp\<rparr>"

definition calculate_mobile_score :: "page_data \<Rightarrow> report \<Rightarrow> report" where
  "calculate_mobile_score page performance =
     (let acc = ([], 100);
          acc = (if \<not> pd_viewport_meta page
                 then (fst acc @ [plain_issue ''error'' ''Missing viewport meta tag'' ''high''],
                       snd acc - 20)
                 else acc);
          small_buttons = (case pd_small_touch_targets page of None \<Rightarrow> 0 | Some n \<Rightarrow> n);
          acc = (if small_buttons > 0
                 then (fst acc @ [plain_issue ''warning''
                                    (str_int small_buttons @ '' touch targets are too small'')
                                    ''medium''],
                       snd acc - min (small_buttons * 2) 15)
                 else acc);
          small_text = (case pd_small_text_count page of None \<Rightarrow> 0 | Some n \<Rightarrow> n);
          acc = (if small_text > 5
                 then (fst acc @ [plain_issue ''warning'' ''Text too small to read on mobile''
                                    ''medium''],
                       snd acc - 10)
                 else acc);
          scrolls = (pd_horizontal_scroll page = Some True);
          acc = (if scrolls
                 then (fst acc @ [plain_issue ''error'' ''Content wider than screen'' ''high''],
                       snd acc - 15)
                 else acc)
      in \<lparr>r_score = max 0 (snd acc),
          r_issues = fst acc,
          r_checks = [(''viewportMeta'', Some (pd_viewport_meta page)),
                      (''touchTargets'', Some (small_buttons = 0)),
                      (''readableText'', Some (small_text \<le> 5)),
                      (''noHorizontalScroll'', Some (\<not> scrolls))]\<rparr>)"

text \<open>
  The weights are the doubles nearest to 0.25, 0.10 and 0.15; each product and each sum
  is rounded, in the order the expression is evaluated, and \<open>round\<close> rounds the final
  double to an integer.
\<close>

definition calculate_overall_score :: "int \<Rightarrow> int \<Rightarrow> int \<Rightarrow> int \<Rightarrow> int \<Rightarrow> int" where
  "calculate_overall_score technical onpage performance security mobile =
     (let w_technical = fl (25 / 100);
          w_onpage = fl (25 / 100);
          w_performance = fl (25 / 100);
          w_security = fl (10 / 100);
          w_mobile = fl (15 / 100);
          s = fl (fl (of_int technical) * w_technical);
          s = fl (s + fl (fl (of_int onpage) * w_onpage));
          s = fl (s + fl (fl (of_int performance) * w_performance));
          s = fl (s + fl (fl (of_int security) * w_security));
          s = fl (s + fl (fl (of_int mobile) * w_mobile))
      in round_half_even s)"

section \<open>Notions used to state the properties\<close>

text \<open>What a check result takes off the score and adds to the issues in \<open>record_check\<close>.\<close>

definition penalty :: "check_result \<Rightarrow> int" where
  "penalty res = (if passed res then 0 else deduction res)"

definition reported :: "check_result \<Rightarrow> issue list" where
  "reported res =
     (if passed res then [] else (case issue_of res of None \<Rightarrow> [] | Some i \<Rightarrow> [i]))"

definition m_penalty :: "multi_result \<Rightarrow> int" where
  "m_penalty res = (if m_passed res then 0 else m_deduction res)"

definition all_passed :: "report \<Rightarrow> bool" where
  "all_passed rep = list_all (\<lambda>c. snd c = Some True) (r_checks rep)"

text \<open>A request that returned status 200 with \<open>xml\<close> in its content type.\<close>

definition sitemap_ok :: "response attempt \<Rightarrow> bool" where
  "sitemap_ok a =
     (case a of
        Raises \<Rightarrow> False
      | Returns r \<Rightarrow>
          resp_status r = 200
          \<and> contains (case resp_content_type r of None \<Rightarrow> [] | Some ct \<Rightarrow> ct) ''xml'')"

text \<open>The exact weighted sum of the five component scores.\<close>

definition weighted_sum :: "int \<Rightarrow> int \<Rightarrow> int \<Rightarrow> int \<Rightarrow> int \<Rightarrow> rat" where
  "weighted_sum technical onpage performance security mobile =
     (25 * of_int technical + 25 * of_int onpage + 25 * of_int performance
        + 10 * of_int security + 15 * of_int mobile) / 100"

text \<open>Rounding to the nearest integer with halves rounded up.\<close>

definition round_half_up :: "rat \<Rightarrow> int" where
  "round_half_up y = \<lfloor>y + 1 / 2\<rfloor>"

text \<open>A bound on the error of one rounding of a double below 128.\<close>

definition unit_error :: rat where
  "unit_error = 1 / 10 ^ 12"

subsection \<open>Surroundings for the examples\<close>

text \<open>
  The examples use absolute URLs of the form \<open>scheme://host/path\<close> without query or
  fragment. On these, \<open>urljoin\<close> returns the reference itself and \<open>urlparse\<close> splits at
  \<open>://\<close> and at the first slash after the host.
\<close>

definition urljoin_absolute :: "string \<Rightarrow> string \<Rightarrow> string" where
  "urljoin_absolute base_url ref = ref"

definition urlparse_simple :: "string \<Rightarrow> parsed_url" where
  "urlparse_simple u =
     (let rest = drop 3 (dropWhile (\<lambda>c. c \<noteq> CHR '':'') u)
      in \<lparr>scheme = takeWhile (\<lambda>c. c \<noteq> CHR '':'') u,
          netloc = takeWhile (\<lambda>c. c \<noteq> CHR ''/'') rest,
          path = dropWhile (\<lambda>c. c \<noteq> CHR ''/'') rest\<rparr>)"

definition xml_response :: response where
  "xml_response = \<lparr>resp_status = 200, resp_content_type = Some ''application/xml''\<rparr>"

definition not_found :: response where
  "not_found = \<lparr>resp_status = 404, resp_content_type = Some ''text/html''\<rparr>"

text \<open>A site that serves robots.txt and sitemap.xml and none of the sensitive paths.\<close>

definition tidy_site :: env where
  "tidy_site =
     \<lparr>urlparse = urlparse_simple,
      robots_client = Returns (\<lambda>u. Returns xml_response),
      sitemap_client = Returns (\<lambda>u. Returns xml_response),
      sensitive_client = Returns (\<lambda>u. Returns not_found)\<rparr>"

text \<open>A site on which every request of the sitemap probe raises.\<close>

definition unreachable_site :: env where
  "unreachable_site =
     \<lparr>urlparse = urlparse_simple,
      robots_client = Returns (\<lambda>u. Raises),
      sitemap_client = Returns (\<lambda>u. Raises),
      sensitive_client = Returns (\<lambda>u. Raises)\<rparr>"

text \<open>A site for which the client of each probe cannot be opened.\<close>

definition no_client :: env where
  "no_client =
     \<lparr>urlparse = urlparse_simple,
      robots_client = Raises, sitemap_client = Raises, sensitive_client = Raises\<rparr>"

definition good_page :: page_data where
  "good_page =
     \<lparr>pd_url = ''https://example.com/guide'',
      pd_status_code = 200,
      pd_headers = [(''X-Content-Type-Options'', ''nosniff''), (''X-Frame-Options'', ''DENY''),
                    (''Strict-Transport-Security'', ''max-age=63072000''),
                    (''Content-Security-Policy'', ''default-src https:'')],
      pd_redirects = [],
      pd_title = Some ''A complete guide to auditing web pages'',
      pd_meta_description =
        Some ''Learn how a page is fetched, parsed and scored by the four analyzers of the audit engine.'',
      pd_canonical = Some ''https://example.com/guide'',
      pd_robots_meta = Some ''index, follow'',
      pd_viewport_meta = True,
      pd_og_tags = [''title'' \<mapsto> ''Guide'', ''description'' \<mapsto> ''Auditing'',
                    ''image'' \<mapsto> ''https://example.com/g.png''],
      pd_headings = [''h1'' \<mapsto> [''Auditing web pages''], ''h2'' \<mapsto> [''Crawling'', ''Scoring'']],
      pd_internal_links =
        [\<lparr>link_url = ''https://example.com/'', link_text = ''Home'', link_rel = []\<rparr>,
         \<lparr>link_url = ''https://example.com/about'', link_text = ''About'', link_rel = []\<rparr>],
      pd_external_links = [],
      pd_images =
        [\<lparr>img_src = ''https://example.com/g.png'', img_alt = ''Diagram'', has_alt = True,
          img_loading = ''lazy'', img_width = ''640'', img_height = ''480''\<rparr>],
      pd_word_count = 850,
      pd_text_content = ''Auditing web pages'',
      pd_scripts = [],
      pd_stylesheets = [\<lparr>css_href = ''https://example.com/site.css''\<rparr>],
      pd_has_schema = True,
      pd_schema_types = [''Article''],
      pd_lang = Some ''en'',
      pd_small_touch_targets = None,
      pd_small_text_count = None,
      pd_horizontal_scroll = None\<rparr>"

text \<open>A page with a script and two paragraphs, and a page with two images.\<close>

definition short_soup :: soup where
  "short_soup =
     [Tag ''html'' [(''lang'', ''en'')]
        [Tag ''head'' [] [Tag ''script'' [] [Text ''var x = 1;'']],
         Tag ''body'' []
           [Tag ''nav'' [] [Tag ''a'' [(''href'', ''/'')] [Text ''Home'']],
            Tag ''p'' [] [Text ''Hello   world ''],
            Tag ''p'' [] [Text ''again'']]]]"

definition gallery_soup :: soup where
  "gallery_soup =
     [Tag ''body'' []
        [Tag ''img'' [(''src'', ''https://example.com/logo.png''), (''alt'', ''Logo'')] [],
         Tag ''p'' [] [Tag ''img'' [(''src'', ''https://example.com/rule.png''), (''alt'', [])] []],
         Tag ''img'' [(''alt'', ''no source'')] []]]"

text \<open>A page whose text is one word of 10000 letters followed by a second word.\<close>

definition long_soup :: soup where
  "long_soup = [Tag ''p'' [] [Text (replicate 10000 CHR ''a'' @ '' b'')]]"

section \<open>Properties\<close>

subsection \<open>Basic facts\<close>

lemma str_nat_one: "str_nat (Suc 0) = ''1''"
  by code_simp

lemma fail_fields [simp]:
  "passed (fail ty code msg rec imp d) = False"
  "deduction (fail ty code msg rec imp d) = d"
  "issue_of (fail ty code msg rec imp d) =
     Some \<lparr>issue_type = ty, issue_code = Some code, issue_message = msg,
           issue_recommendation = rec, issue_impact = Some imp\<rparr>"
  by (simp_all add: fail_def)

lemma pass_fields [simp]:
  "passed pass = True" "deduction pass = 0" "issue_of pass = None"
  by (simp_all add: pass_def)

lemma record_check_score:
  "r_score (record_check name res rep) = r_score rep - penalty res"
  by (simp add: record_check_def penalty_def Let_def)

lemma record_check_issues:
  "r_issues (record_check name res rep) = r_issues rep @ reported res"
  by (simp add: record_check_def reported_def Let_def)

lemma record_check_checks:
  "r_checks (record_check name res rep) = r_checks rep @ [(name, Some (passed res))]"
  by (simp add: record_check_def Let_def)

lemma record_multi_score:
  "r_score (record_multi name res rep) = r_score rep - m_penalty res"
  by (simp add: record_multi_def m_penalty_def Let_def)

lemma record_multi_checks:
  "r_checks (record_multi name res rep) = r_checks rep @ [(name, Some (m_passed res))]"
  by (simp add: record_multi_def Let_def)

lemmas record_simps = record_check_score record_check_issues record_check_checks
  record_multi_score record_multi_checks

subsection \<open>Images\<close>

lemma attr_or_empty_nonempty: "(attr_or_empty e k \<noteq> []) = truthy (attr e k)"
  by (simp add: attr_or_empty_def truthy_def split: option.split)

lemma collect_images_eq:
  "collect_images urljoin base_url es =
     map (image_record urljoin base_url) (filter (\<lambda>img. truthy (attr img ''src'')) es)"
  by (induction es) (simp_all add: Let_def attr_or_empty_nonempty)

text \<open>
  C2, as stated, says that \<open>has_alt\<close> is true whenever the \<open>img\<close> tag carries an
  \<open>alt\<close> attribute, the empty one included. An image whose \<open>alt\<close> attribute is present
  and empty gets \<open>has_alt = False\<close>.
\<close>

theorem has_alt_empty_alt_counterexample:
  "attr (Tag ''img'' [(''src'', ''https://example.com/rule.png''), (''alt'', [])] []) ''alt'' = Some []
   \<and> map has_alt
        (get_images urljoin_absolute
           [Tag ''img'' [(''src'', ''https://example.com/rule.png''), (''alt'', [])] []]
           ''https://example.com/'') = [False]"
  by (simp add: get_images_def find_all_def named_def attr_def attr_or_empty_def
      image_record_def truthy_def)

text \<open>
  C2, amended. The image records are those of the first 100 \<open>img\<close> tags with a
  non-empty \<open>src\<close>, in document order, and in the record of a tag \<open>has_alt\<close> is true if
  and only if the tag carries an \<open>alt\<close> attribute whose value is not the empty string;
  so in every extracted record \<open>has_alt\<close> says that the stored alt text is non-empty.
\<close>

theorem has_alt_nonempty_alt:
  "get_images urljoin sp base_url =
     take 100 (map (image_record urljoin base_url)
       (filter (\<lambda>img. truthy (attr img ''src'')) (find_all [''img''] sp)))
   \<and> has_alt (image_record urljoin base_url img) = (\<exists>v. attr img ''alt'' = Some v \<and> v \<noteq> [])
   \<and> img_alt (image_record urljoin base_url img) =
       (case attr img ''alt'' of None \<Rightarrow> [] | Some v \<Rightarrow> v)
   \<and> (\<forall>r \<in> set (get_images urljoin sp base_url). has_alt r = (img_alt r \<noteq> []))"
proof -
  have eq: "get_images urljoin sp base_url =
     take 100 (map (image_record urljoin base_url)
       (filter (\<lambda>img. truthy (attr img ''src'')) (find_all [''img''] sp)))"
    by (simp add: get_images_def collect_images_eq)
  have rec: "has_alt (image_record urljoin base_url e) = (img_alt (image_record urljoin base_url e) \<noteq> [])" for e
    by (simp add: image_record_def attr_or_empty_nonempty)
  have "\<forall>r \<in> set (get_images urljoin sp base_url). has_alt r = (img_alt r \<noteq> [])"
  proof
    fix r assume "r \<in> set (get_images urljoin sp base_url)"
    then have "r \<in> set (map (image_record urljoin base_url)
       (filter (\<lambda>img. truthy (attr img ''src'')) (find_all [''img''] sp)))"
      unfolding eq by (rule in_set_takeD)
    then obtain e where "r = image_record urljoin base_url e" by auto
    then show "has_alt r = (img_alt r \<noteq> [])" using rec by simp
  qed
  moreover have "has_alt (image_record urljoin base_url img) = (\<exists>v. attr img ''alt'' = Some v \<and> v \<noteq> [])"
    by (simp add: image_record_def truthy_def split: option.split)
  moreover have "img_alt (image_record urljoin base_url img) =
       (case attr img ''alt'' of None \<Rightarrow> [] | Some v \<Rightarrow> v)"
    by (simp add: image_record_def attr_or_empty_def)
  ultimately show ?thesis using eq by blast
qed

theorem has_alt_nonempty_alt_witness:
  "map has_alt (get_images urljoin_absolute gallery_soup ''https://example.com/'') = [True, False]
   \<and> map img_alt (get_images urljoin_absolute gallery_soup ''https://example.com/'') = [''Logo'', []]"
  using has_alt_nonempty_alt [of urljoin_absolute gallery_soup "''https://example.com/''"]
  by (simp add: gallery_soup_def find_all_def named_def attr_def attr_or_empty_def
      image_record_def truthy_def)

subsection \<open>Word count and text content\<close>

lemma split_from_nonempty: "cur \<noteq> [] \<Longrightarrow> split_from cur s \<noteq> []"
  by (induction s arbitrary: cur) auto

lemma length_split_from_take:
  "length (split_from cur (take n s)) \<le> length (split_from cur s)"
proof (induction s arbitrary: cur n)
  case Nil
  then show ?case by simp
next
  case (Cons c cs)
  show ?case
  proof (cases n)
    case 0
    have "split_from cur (c # cs) \<noteq> []" if "cur \<noteq> []"
      using that by (rule split_from_nonempty)
    then show ?thesis using 0 by (cases "split_from cur (c # cs)") auto
  next
    case (Suc m)
    then show ?thesis using Cons.IH [of _ m] by simp
  qed
qed

lemma length_split_take: "length (split (take n s)) \<le> length (split s)"
  by (simp add: split_def length_split_from_take)

lemma split_from_replicate:
  "\<not> is_space c \<Longrightarrow> split_from cur (replicate n c @ s) = split_from (replicate n c @ cur) s"
  by (induction n arbitrary: cur) (simp_all add: replicate_app_Cons_same)

lemma named_decompose: "named names (decompose names c) = named names c"
  by (cases c) (simp_all add: named_def)

lemma decompose_idem: "decompose names (decompose names c) = decompose names c"
proof (induction c)
  case (Text s)
  then show ?case by simp
next
  case (Tag n as cs)
  have "filter (\<lambda>c. \<not> named names c) (map (decompose names) (filter (\<lambda>c. \<not> named names c) cs))
      = map (decompose names) (filter (\<lambda>c. \<not> named names c) cs)"
    by (simp add: filter_map o_def named_decompose)
  then show ?case using Tag by simp
qed

lemma decompose_all_idem:
  "decompose_all names (decompose_all names sp) = decompose_all names sp"
  by (simp add: decompose_all_def filter_map o_def named_decompose decompose_idem)

lemma visible_text_decomposed:
  "visible_text (decompose_all removed_tags sp) = visible_text sp"
  by (simp add: visible_text_def decompose_all_idem)

lemma not_space_a: "\<not> is_space CHR ''a''"
  by (simp add: is_space_def)

lemma space_space: "is_space CHR '' ''"
  by (simp add: is_space_def)

lemma visible_text_long: "visible_text long_soup = replicate 10000 CHR ''a'' @ '' b''"
proof -
  have "decompose_all removed_tags long_soup = long_soup"
    by (simp add: decompose_all_def long_soup_def named_def removed_tags_def)
  moreover have "get_text '' '' long_soup = replicate 10000 CHR ''a'' @ '' b''"
    by (simp add: get_text_def long_soup_def)
  moreover have "split (replicate 10000 CHR ''a'' @ '' b'') = [replicate 10000 CHR ''a'', ''b'']"
    by (simp add: split_def split_from_replicate not_space_a is_space_def)
  ultimately show ?thesis
    by (simp add: visible_text_def)
qed

text \<open>
  C1, as stated, says that the word count is the number of words of the full cleaned
  text, counted before the cut to 10000 characters. On a page whose cleaned text is a
  word of 10000 letters, a space and a second word, the full text has 2 words and the
  word count is 1.
\<close>

theorem word_count_truncated_counterexample:
  "fst (get_word_count long_soup) = 1 \<and> length (split (visible_text long_soup)) = 2"
proof -
  have "split (replicate 10000 CHR ''a'' @ '' b'') = [replicate 10000 CHR ''a'', ''b'']"
    by (simp add: split_def split_from_replicate not_space_a is_space_def)
  moreover have "split (replicate 10000 CHR ''a'') = [replicate 10000 CHR ''a'']"
    using split_from_replicate [of "CHR ''a''" "[]" 10000 "[]"]
    by (simp add: split_def not_space_a)
  ultimately show ?thesis
    by (simp add: get_word_count_def get_text_content_def visible_text_long)
qed

text \<open>
  C1, amended. The stored text content is the first 10000 characters of the cleaned
  visible text, and the word count is the number of whitespace-delimited words of that
  stored text, as \<open>crawl\<close> computes both. The word count never exceeds the number of
  words of the full cleaned text and equals it whenever the cleaned text has at most
  10000 characters.
\<close>

theorem word_count_of_snippet:
  "fst (get_text_content sp) = take 10000 (visible_text sp)
   \<and> fst (get_word_count sp) = int (length (split (fst (get_text_content sp))))
   \<and> crawl_content sp =
       (int (length (split (take 10000 (visible_text sp)))), take 10000 (visible_text sp))
   \<and> fst (get_word_count sp) \<le> int (length (split (visible_text sp)))
   \<and> (length (visible_text sp) \<le> 10000 \<longrightarrow>
        fst (get_word_count sp) = int (length (split (visible_text sp))))"
  by (simp add: get_word_count_def get_text_content_def crawl_content_def
      visible_text_decomposed length_split_take)

theorem word_count_of_snippet_witness:
  "length (visible_text short_soup) \<le> 10000
   \<and> fst (get_word_count short_soup) = int (length (split (visible_text short_soup)))
   \<and> crawl_content short_soup = (3, ''Hello world again'')"
proof -
  have v: "visible_text short_soup = ''Hello world again''"
    by code_simp
  show ?thesis
    using word_count_of_snippet [of short_soup] unfolding v
    by (simp add: split_def is_space_def)
qed

subsection \<open>The score of an analyzer\<close>

lemma technical_analyze_score:
  "r_score (technical_analyze e u page) =
     max 0 (100 - (penalty (check_canonical e u page) + penalty (check_robots page)
              + penalty (check_robots_txt e u) + penalty (check_sitemap e u)
              + penalty (technical_check_https u) + penalty (check_redirects page)
              + penalty (check_status_code page) + penalty (check_language page)
              + penalty (check_schema page)))"
  by (simp add: technical_analyze_def Let_def finish_def start_def record_simps)

lemma technical_analyze_checks:
  "r_checks (technical_analyze e u page) =
     [(''canonical'', Some (passed (check_canonical e u page))),
      (''robotsMeta'', Some (passed (check_robots page))),
      (''robotsTxt'', Some (passed (check_robots_txt e u))),
      (''sitemap'', Some (passed (check_sitemap e u))),
      (''https'', Some (passed (technical_check_https u))),
      (''redirectChain'', Some (passed (check_redirects page))),
      (''statusCode'', Some (passed (check_status_code page))),
      (''language'', Some (passed (check_language page))),
      (''structuredData'', Some (passed (check_schema page)))]"
  by (simp add: technical_analyze_def Let_def finish_def start_def record_simps)

lemma technical_analyze_issues:
  "r_issues (technical_analyze e u page) =
     reported (check_canonical e u page) @ reported (check_robots page)
       @ reported (check_robots_txt e u) @ reported (check_sitemap e u)
       @ reported (technical_check_https u) @ reported (check_redirects page)
       @ reported (check_status_code page) @ reported (check_language page)
       @ reported (check_schema page)"
  by (simp add: technical_analyze_def Let_def finish_def start_def record_simps)

lemma onpage_analyze_score:
  "r_score (onpage_analyze page) =
     max 0 (100 - (penalty (check_title (pd_title page))
              + penalty (check_meta_description (pd_meta_description page))
              + penalty (check_h1 (pd_headings page))
              + penalty (check_heading_hierarchy (pd_headings page))
              + penalty (check_images (pd_images page))
              + penalty (check_content (pd_word_count page))
              + penalty (check_internal_links (pd_internal_links page))
              + penalty (check_og_tags (pd_og_tags page))))"
  by (simp add: onpage_analyze_def Let_def finish_def start_def record_simps)

lemma onpage_analyze_checks:
  "r_checks (onpage_analyze page) =
     [(''title'', Some (passed (check_title (pd_title page)))),
      (''metaDescription'', Some (passed (check_meta_description (pd_meta_description page)))),
      (''h1'', Some (passed (check_h1 (pd_headings page)))),
      (''headingHierarchy'', Some (passed (check_heading_hierarchy (pd_headings page)))),
      (''imageAlt'', Some (passed (check_images (pd_images page)))),
      (''contentLength'', Some (passed (check_content (pd_word_count page)))),
      (''internalLinks'', Some (passed (check_internal_links (pd_internal_links page)))),
      (''openGraph'', Some (passed (check_og_tags (pd_og_tags page))))]"
  by (simp add: onpage_analyze_def Let_def finish_def start_def record_simps)

lemma security_analyze_score:
  "r_score (security_analyze e u page) =
     max 0 (100 - (penalty (security_check_https u)
              + m_penalty (check_security_headers (pd_headers page))
              + penalty (check_mixed_content page)
              + m_penalty (check_sensitive_paths e u)))"
  by (simp add: security_analyze_def Let_def finish_def start_def record_simps)

lemma security_analyze_checks:
  "r_checks (security_analyze e u page) =
     [(''https'', Some (passed (security_check_https u))),
      (''securityHeaders'', Some (m_passed (check_security_headers (pd_headers page)))),
      (''noMixedContent'', Some (passed (check_mixed_content page))),
      (''noSensitivePaths'', Some (m_passed (check_sensitive_paths e u)))]"
  by (simp add: security_analyze_def Let_def finish_def start_def record_simps)

text \<open>No check has a negative penalty.\<close>

lemma penalty_pass [simp]: "penalty pass = 0"
  by (simp add: penalty_def)

lemma penalty_fail [simp]: "penalty (fail ty code msg rec imp d) = d"
  by (simp add: penalty_def)

lemma penalty_onpage:
  "0 \<le> penalty (check_title t)" "0 \<le> penalty (check_meta_description d)"
  "0 \<le> penalty (check_h1 hs)" "0 \<le> penalty (check_heading_hierarchy hs)"
  "0 \<le> penalty (check_images imgs)" "0 \<le> penalty (check_content wc)"
  "0 \<le> penalty (check_internal_links ls)" "0 \<le> penalty (check_og_tags og)"
  by (simp_all add: check_title_def check_meta_description_def check_h1_def
      check_heading_hierarchy_def check_images_def check_content_def
      check_internal_links_def check_og_tags_def Let_def)

lemma penalty_technical:
  "0 \<le> penalty (check_canonical e u page)" "0 \<le> penalty (check_robots page)"
  "0 \<le> penalty (check_robots_txt e u)" "0 \<le> penalty (check_sitemap e u)"
  "0 \<le> penalty (technical_check_https u)" "0 \<le> penalty (check_redirects page)"
  "0 \<le> penalty (check_status_code page)" "0 \<le> penalty (check_language page)"
  "0 \<le> penalty (check_schema page)"
  by (simp_all add: check_canonical_def check_robots_def check_robots_txt_def
      check_sitemap_def technical_check_https_def check_redirects_def
      check_status_code_def check_language_def check_schema_def Let_def penalty_def
      split: attempt.split)

lemma report_missing_nonneg: "0 \<le> d \<Longrightarrow> 0 \<le> snd acc \<Longrightarrow> 0 \<le> snd (report_missing b i d acc)"
  by (simp add: report_missing_def)

lemma probe_paths_nonneg: "0 \<le> snd acc \<Longrightarrow> 0 \<le> snd (probe_paths get base ps acc)"
  by (induction ps arbitrary: acc) (auto split: attempt.split)

lemma penalty_security:
  "0 \<le> penalty (security_check_https u)" "0 \<le> penalty (check_mixed_content page)"
  "0 \<le> m_penalty (check_security_headers hdrs)" "0 \<le> m_penalty (check_sensitive_paths e u)"
proof -
  show "0 \<le> penalty (security_check_https u)"
    by (simp add: security_check_https_def)
  show "0 \<le> penalty (check_mixed_content page)"
    by (simp add: check_mixed_content_def Let_def)
  show "0 \<le> m_penalty (check_security_headers hdrs)"
    by (simp add: check_security_headers_def m_penalty_def Let_def report_missing_nonneg)
  show "0 \<le> m_penalty (check_sensitive_paths e u)"
    by (simp add: check_sensitive_paths_def m_penalty_def Let_def probe_paths_nonneg
        split: attempt.split)
qed

lemma passed_no_penalty: "passed res \<Longrightarrow> penalty res = 0"
  by (simp add: penalty_def)

lemma m_passed_no_penalty: "m_passed res \<Longrightarrow> m_penalty res = 0"
  by (simp add: m_penalty_def)

lemma score_bound: "0 \<le> d \<Longrightarrow> max 0 (100 - d) \<le> (100::int)"
  by simp

lemma onpage_score_le: "r_score (onpage_analyze page) \<le> 100"
  unfolding onpage_analyze_score
  by (intro score_bound add_nonneg_nonneg penalty_onpage)

lemma technical_score_le: "r_score (technical_analyze e u page) \<le> 100"
  unfolding technical_analyze_score
  by (intro score_bound add_nonneg_nonneg penalty_technical)

lemma security_score_le: "r_score (security_analyze e u page) \<le> 100"
  unfolding security_analyze_score
  by (intro score_bound add_nonneg_nonneg penalty_security)

lemma onpage_all_passed: "all_passed (onpage_analyze page) \<Longrightarrow> r_score (onpage_analyze page) = 100"
  by (simp add: all_passed_def onpage_analyze_checks onpage_analyze_score passed_no_penalty)

lemma technical_all_passed:
  "all_passed (technical_analyze e u page) \<Longrightarrow> r_score (technical_analyze e u page) = 100"
  by (simp add: all_passed_def technical_analyze_checks technical_analyze_score
      passed_no_penalty)

lemma security_all_passed:
  "all_passed (security_analyze e u page) \<Longrightarrow> r_score (security_analyze e u page) = 100"
  by (simp add: all_passed_def security_analyze_checks security_analyze_score
      passed_no_penalty m_passed_no_penalty)

subsection \<open>Monotonic scoring\<close>

text \<open>
  C7. On a page on which all checks of an analyzer pass, the analyzer's score is 100, and
  no other page, in particular none that differs by one more failing check, gets a
  higher score from that analyzer. This holds for the on-page, the technical and the
  security analyzer, whatever the probes of the other page return.
\<close>

theorem score_monotonic:
  "(all_passed (onpage_analyze page) \<longrightarrow>
      r_score (onpage_analyze page) = 100
      \<and> r_score (onpage_analyze page') \<le> r_score (onpage_analyze page))
   \<and> (all_passed (technical_analyze e u page) \<longrightarrow>
      r_score (technical_analyze e u page) = 100
      \<and> r_score (technical_analyze e' u' page') \<le> r_score (technical_analyze e u page))
   \<and> (all_passed (security_analyze e u page) \<longrightarrow>
      r_score (security_analyze e u page) = 100
      \<and> r_score (security_analyze e' u' page') \<le> r_score (security_analyze e u page))"
  using onpage_score_le [of page'] technical_score_le [of e' u' page']
    security_score_le [of e' u' page']
  by (auto simp: onpage_all_passed technical_all_passed security_all_passed)

theorem score_monotonic_witness:
  "r_score (onpage_analyze (good_page\<lparr>pd_title := None\<rparr>)) \<le> r_score (onpage_analyze good_page)
   \<and> r_score (technical_analyze unreachable_site ''http://example.com/guide''
        (good_page\<lparr>pd_title := None\<rparr>))
       \<le> r_score (technical_analyze tidy_site ''https://example.com/guide'' good_page)
   \<and> r_score (security_analyze unreachable_site ''http://example.com/guide''
        (good_page\<lparr>pd_title := None\<rparr>))
       \<le> r_score (security_analyze tidy_site ''https://example.com/guide'' good_page)"
proof -
  have 1: "all_passed (onpage_analyze good_page)"
    by code_simp
  have 2: "all_passed (technical_analyze tidy_site ''https://example.com/guide'' good_page)"
    by code_simp
  have 3: "all_passed (security_analyze tidy_site ''https://example.com/guide'' good_page)"
    by code_simp
  show ?thesis
    using 1 2 3
      score_monotonic [of good_page "good_page\<lparr>pd_title := None\<rparr>" tidy_site
        "''https://example.com/guide''" unreachable_site "''http://example.com/guide''"]
    by simp
qed

subsection \<open>Canonical URL\<close>

lemma check_canonical_mismatch:
  assumes "pd_canonical page = Some c" and "c \<noteq> []"
    and "path (urlparse e c) \<noteq> path (urlparse e u)"
  shows "passed (check_canonical e u page)" and "deduction (check_canonical e u page) = 0"
  using assms by (simp_all add: check_canonical_def truthy_def Let_def)

text \<open>
  C8. When the page has a canonical URL whose path differs from the path of the requested
  URL, the canonical check passes with deduction 0, the technical analyzer records
  \<open>checks["canonical"] = True\<close>, and neither its score nor its issues get anything from
  the canonical check: the score is 100 less the penalties of the other eight checks.
\<close>

theorem canonical_soft_pass:
  assumes "pd_canonical page = Some c" and "c \<noteq> []"
    and "path (urlparse e c) \<noteq> path (urlparse e u)"
  shows "passed (check_canonical e u page) \<and> deduction (check_canonical e u page) = 0
    \<and> map_of (r_checks (technical_analyze e u page)) ''canonical'' = Some (Some True)
    \<and> r_score (technical_analyze e u page) =
        max 0 (100 - (penalty (check_robots page) + penalty (check_robots_txt e u)
                 + penalty (check_sitemap e u) + penalty (technical_check_https u)
                 + penalty (check_redirects page) + penalty (check_status_code page)
                 + penalty (check_language page) + penalty (check_schema page)))
    \<and> r_issues (technical_analyze e u page) =
        reported (check_robots page) @ reported (check_robots_txt e u)
          @ reported (check_sitemap e u) @ reported (technical_check_https u)
          @ reported (check_redirects page) @ reported (check_status_code page)
          @ reported (check_language page) @ reported (check_schema page)"
  using check_canonical_mismatch [OF assms]
  by (simp add: technical_analyze_checks technical_analyze_score technical_analyze_issues
      penalty_def reported_def)

theorem canonical_soft_pass_witness:
  "passed (check_canonical tidy_site ''https://example.com/guide''
      (good_page\<lparr>pd_canonical := Some ''https://example.com/other''\<rparr>))
   \<and> map_of (r_checks (technical_analyze tidy_site ''https://example.com/guide''
        (good_page\<lparr>pd_canonical := Some ''https://example.com/other''\<rparr>))) ''canonical''
       = Some (Some True)"
proof -
  have "path (urlparse tidy_site ''https://example.com/other'')
      \<noteq> path (urlparse tidy_site ''https://example.com/guide'')"
    by (simp add: tidy_site_def urlparse_simple_def)
  then show ?thesis
    using canonical_soft_pass [of "good_page\<lparr>pd_canonical := Some ''https://example.com/other''\<rparr>"
        "''https://example.com/other''" tidy_site "''https://example.com/guide''"]
    by simp
qed

subsection \<open>Sitemap probe\<close>

lemma sitemap_found_two:
  "sitemap_found get [a, b] = (sitemap_ok (get a) \<or> sitemap_ok (get b))"
  by (auto simp: sitemap_ok_def split: attempt.split)

text \<open>
  C9, as stated, says that the check deducts only 3 whenever the probe runs into a
  network failure. On a site where both requests of the probe raise, the check deducts 5
  and reports \<open>missing_sitemap\<close>.
\<close>

theorem sitemap_network_failure_counterexample:
  "deduction (check_sitemap unreachable_site ''https://example.com/guide'') = 5
   \<and> map_option issue_code (issue_of (check_sitemap unreachable_site ''https://example.com/guide''))
       = Some (Some ''missing_sitemap'')"
  by (simp add: check_sitemap_def unreachable_site_def Let_def)

text \<open>
  C9, amended. The sitemap check deducts 3 exactly when the client of the probe cannot be
  opened. With the client open it deducts 0 when one of the two sitemap URLs returns
  status 200 with \<open>xml\<close> in its content type, and 5 otherwise; a request that raises
  counts as no such response.
\<close>

theorem sitemap_deductions:
  "deduction (check_sitemap e u) =
     (case sitemap_client e of
        Raises \<Rightarrow> 3
      | Returns get \<Rightarrow>
          if sitemap_ok (get (origin (urlparse e u) @ ''/sitemap.xml''))
             \<or> sitemap_ok (get (origin (urlparse e u) @ ''/sitemap_index.xml''))
          then 0 else 5)
   \<and> passed (check_sitemap e u) = (deduction (check_sitemap e u) = 0)
   \<and> penalty (check_sitemap e u) = deduction (check_sitemap e u)"
  by (cases "sitemap_client e")
    (simp_all add: check_sitemap_def Let_def sitemap_found_two penalty_def
      del: sitemap_found.simps)

theorem sitemap_deductions_witness:
  "deduction (check_sitemap no_client ''https://example.com/guide'') = 3
   \<and> deduction (check_sitemap unreachable_site ''https://example.com/guide'') = 5
   \<and> deduction (check_sitemap tidy_site ''https://example.com/guide'') = 0"
  using sitemap_deductions [of no_client "''https://example.com/guide''"]
    sitemap_deductions [of unreachable_site "''https://example.com/guide''"]
    sitemap_deductions [of tidy_site "''https://example.com/guide''"]
  by (simp add: no_client_def unreachable_site_def tidy_site_def sitemap_ok_def xml_response_def
      startswith_def)

subsection \<open>Overall score\<close>

text \<open>Rounding to an integer is off by at most a half.\<close>

lemma round_half_even_error: "\<bar>of_int (round_half_even y) - y\<bar> \<le> 1 / 2"
proof -
  have "of_int \<lfloor>y\<rfloor> \<le> y" and "y < of_int \<lfloor>y\<rfloor> + 1"
    by linarith+
  then show ?thesis
    unfolding round_half_even_def Let_def by (auto simp: abs_le_iff)
qed

lemma round_half_even_nonneg: "0 \<le> y \<Longrightarrow> 0 \<le> round_half_even y"
  unfolding round_half_even_def Let_def by auto

lemma float_exponent_bounds:
  assumes "0 < x"
  shows "2 powi (float_exponent x) \<le> x" and "x < 2 powi (float_exponent x + 1)"
proof -
  show "2 powi (float_exponent x) \<le> x"
  proof (cases "1 \<le> x")
    case True
    define n where "n = \<lfloor>x\<rfloor>"
    have n: "0 < n" using True by (simp add: n_def)
    have b1: "1 \<le> bitlen n" using n by (simp add: bitlen_alt_def)
    have "2 ^ nat (bitlen n - 1) \<le> n" using bitlen_bounds [OF n] by simp
    then have "(2::rat) ^ nat (bitlen n - 1) \<le> of_int n"
      by (metis of_int_le_iff of_int_numeral of_int_power)
    also have "of_int n \<le> x" by (simp add: n_def)
    finally show ?thesis
      using True b1 by (simp add: float_exponent_def n_def power_int_def)
  next
    case False
    define n where "n = \<lfloor>1 / x\<rfloor>"
    define b where "b = bitlen n"
    have x1: "1 < 1 / x" using False assms by simp
    have n: "0 < n" using x1 by (simp add: n_def)
    have b0: "0 \<le> b" by (simp add: b_def bitlen_nonneg)
    have "n < 2 ^ nat b" using bitlen_bounds [OF n] by (simp add: b_def)
    then have "n + 1 \<le> 2 ^ nat b" by simp
    then have "(of_int (n + 1) :: rat) \<le> 2 ^ nat b"
      by (metis of_int_le_iff of_int_numeral of_int_power)
    moreover have "1 / x < of_int (n + 1)"
      unfolding n_def by linarith
    ultimately have "1 / x \<le> 2 ^ nat b" by linarith
    then have le1: "1 / 2 ^ nat b \<le> x" using assms by (simp add: field_simps)
    have eq: "(2::rat) powi (- b) = 1 / 2 ^ nat b"
      using b0 by (simp add: power_int_minus power_int_def field_simps)
    have "2 powi (- b) \<le> x"
      unfolding eq by (rule le1)
    then show ?thesis
      using False by (simp add: float_exponent_def Let_def n_def b_def)
  qed
  show "x < 2 powi (float_exponent x + 1)"
  proof (cases "1 \<le> x")
    case True
    define n where "n = \<lfloor>x\<rfloor>"
    have n: "0 < n" using True by (simp add: n_def)
    have b1: "1 \<le> bitlen n" using n by (simp add: bitlen_alt_def)
    have "n < 2 ^ nat (bitlen n)" using bitlen_bounds [OF n] by simp
    then have "n + 1 \<le> 2 ^ nat (bitlen n)" by simp
    then have "(of_int (n + 1) :: rat) \<le> 2 ^ nat (bitlen n)"
      by (metis of_int_le_iff of_int_numeral of_int_power)
    moreover have "x < of_int (n + 1)" unfolding n_def by linarith
    ultimately have "x < 2 ^ nat (bitlen n)" by linarith
    then show ?thesis
      using True b1 by (simp add: float_exponent_def n_def power_int_def)
  next
    case False
    define n where "n = \<lfloor>1 / x\<rfloor>"
    define b where "b = bitlen n"
    have x1: "1 < 1 / x" using False assms by simp
    have n: "0 < n" using x1 by (simp add: n_def)
    have b1: "1 \<le> b" using n by (simp add: b_def bitlen_alt_def)
    have "2 ^ nat (b - 1) \<le> n" using bitlen_bounds [OF n] by (simp add: b_def)
    then have "(2::rat) ^ nat (b - 1) \<le> of_int n"
      by (metis of_int_le_iff of_int_numeral of_int_power)
    also have "of_int n \<le> 1 / x" by (simp add: n_def)
    finally have le1: "x \<le> 1 / 2 ^ nat (b - 1)" using assms by (simp add: field_simps)
    have eq: "(2::rat) powi (1 - b) = 1 / 2 ^ nat (b - 1)"
      using b1 power_int_minus [of "2::rat" "b - 1"] by (simp add: power_int_def field_simps)
    have le: "x \<le> 2 powi (1 - b)"
      unfolding eq by (rule le1)
    have fe: "float_exponent x = (if x = 2 powi (1 - b) then 1 - b else - b)"
      using False by (simp add: float_exponent_def Let_def n_def b_def)
    show ?thesis
    proof (cases "x = 2 powi (1 - b)")
      case True
      have "(2::rat) powi (1 - b) < 2 powi (1 - b + 1)"
        by (rule power_int_strict_increasing) simp_all
      then have "x < 2 powi (1 - b + 1)"
        using True by simp
      moreover have "float_exponent x = 1 - b"
        using fe True by simp
      ultimately show ?thesis by simp
    next
      case ne: False
      then have "x < 2 powi (1 - b)" using le by simp
      moreover have "float_exponent x + 1 = 1 - b"
        using fe ne by simp
      ultimately show ?thesis by simp
    qed
  qed
qed


lemma fl_nonneg: "0 \<le> x \<Longrightarrow> 0 \<le> fl x"
proof -
  assume x: "0 \<le> x"
  have u: "0 < (2::rat) powi k" for k
    by (rule zero_less_power_int) simp
  show ?thesis
    unfolding fl_def Let_def
    using x u by (auto intro!: mult_nonneg_nonneg round_half_even_nonneg simp: less_imp_le)
qed

lemma fl_error:
  assumes "0 \<le> x" and "x < 128"
  shows "\<bar>fl x - x\<bar> \<le> unit_error"
proof (cases "x = 0")
  case True
  then show ?thesis by (simp add: fl_def unit_error_def)
next
  case False
  then have pos: "0 < x" using assms by simp
  define e where "e = float_exponent x"
  define u :: rat where "u = 2 powi (e - 52)"
  have upos: "0 < u" unfolding u_def by (rule zero_less_power_int) simp
  have "e < 7"
  proof (rule ccontr)
    assume "\<not> e < 7"
    then have "(2::rat) powi 7 \<le> 2 powi e"
      by (intro power_int_increasing) simp_all
    also have "\<dots> \<le> x" unfolding e_def using float_exponent_bounds(1) [OF pos] .
    finally show False using assms by simp
  qed
  then have "u \<le> 2 powi (- 46)"
    unfolding u_def by (intro power_int_increasing) simp_all
  also have "(2::rat) powi (- 46) = 1 / 2 ^ 46"
    by (simp add: power_int_minus field_simps)
  finally have ule: "u \<le> 1 / 2 ^ 46" .
  have fl_eq: "fl x = of_int (round_half_even (x / u)) * u"
    using False pos by (simp add: fl_def Let_def u_def e_def)
  have "fl x - x = u * (of_int (round_half_even (x / u)) - x / u)"
    using upos by (simp add: fl_eq field_simps)
  then have "\<bar>fl x - x\<bar> = u * \<bar>of_int (round_half_even (x / u)) - x / u\<bar>"
    using upos by (simp add: abs_mult)
  also have "\<dots> \<le> u * (1 / 2)"
    using upos round_half_even_error [of "x / u"] by (intro mult_left_mono) simp_all
  also have "\<dots> \<le> (1 / 2 ^ 46) * (1 / 2)"
    using ule by simp
  also have "\<dots> \<le> unit_error"
    by (simp add: unit_error_def)
  finally show ?thesis .
qed

text \<open>One weighted component: the score converted, times the weight, each rounded.\<close>

lemma weighted_term:
  fixes k :: int and c :: rat
  assumes k: "0 \<le> k" "k \<le> 100" and c: "0 \<le> c" "c \<le> 1"
  shows "0 \<le> fl (fl (of_int k) * fl c)"
    and "\<bar>fl (fl (of_int k) * fl c) - of_int k * c\<bar> \<le> 200 * unit_error"
proof -
  define a where "a = fl (of_int k)"
  define w where "w = fl c"
  have ue: "0 \<le> unit_error" "unit_error \<le> 1 / 100" by (simp_all add: unit_error_def)
  have k': "(0::rat) \<le> of_int k" "(of_int k :: rat) \<le> 100" using k by simp_all
  have a0: "0 \<le> a" unfolding a_def using k' by (intro fl_nonneg)
  have w0: "0 \<le> w" unfolding w_def using c by (intro fl_nonneg)
  have ae: "\<bar>a - of_int k\<bar> \<le> unit_error"
    unfolding a_def using k' by (intro fl_error) simp_all
  have we: "\<bar>w - c\<bar> \<le> unit_error"
    unfolding w_def using c by (intro fl_error) simp_all
  have a_le: "a \<le> 101" using ae k' ue by linarith
  have w_le: "w \<le> 101 / 100" using we c ue by linarith
  have aw0: "0 \<le> a * w" using a0 w0 by simp
  have "a * w \<le> 101 * (101 / 100)" using a_le w_le a0 w0 by (intro mult_mono) simp_all
  then have aw_le: "a * w < 128" by simp
  show "0 \<le> fl (fl (of_int k) * fl c)"
    using aw0 unfolding a_def w_def by (rule fl_nonneg)
  have e1: "\<bar>fl (a * w) - a * w\<bar> \<le> unit_error"
    using aw0 aw_le by (rule fl_error)
  have "a * w - of_int k * c = a * (w - c) + (a - of_int k) * c"
    by (simp add: algebra_simps)
  then have "\<bar>a * w - of_int k * c\<bar> \<le> \<bar>a * (w - c)\<bar> + \<bar>(a - of_int k) * c\<bar>"
    by (simp add: abs_triangle_ineq)
  also have "\<bar>a * (w - c)\<bar> \<le> 101 * unit_error"
    unfolding abs_mult using a0 a_le we by (intro mult_mono) simp_all
  also have "\<bar>(a - of_int k) * c\<bar> \<le> unit_error * 1"
    unfolding abs_mult using c ae by (intro mult_mono) simp_all
  finally have e2: "\<bar>a * w - of_int k * c\<bar> \<le> 102 * unit_error" by simp
  show "\<bar>fl (fl (of_int k) * fl c) - of_int k * c\<bar> \<le> 200 * unit_error"
    using e1 e2 ue unfolding a_def w_def by linarith
qed

text \<open>One rounded addition of two approximated, non-negative terms.\<close>

lemma rounded_sum:
  assumes "0 \<le> a" and "0 \<le> b"
    and "\<bar>a - A\<bar> \<le> ea" and "\<bar>b - B\<bar> \<le> eb"
    and "A + B \<le> 100" and "ea + eb \<le> 1"
  shows "0 \<le> fl (a + b)" and "\<bar>fl (a + b) - (A + B)\<bar> \<le> ea + eb + unit_error"
proof -
  have s0: "0 \<le> a + b" using assms by simp
  have "a + b < 128" using assms by linarith
  with s0 have "\<bar>fl (a + b) - (a + b)\<bar> \<le> unit_error" by (rule fl_error)
  then show "\<bar>fl (a + b) - (A + B)\<bar> \<le> ea + eb + unit_error"
    using assms by linarith
  show "0 \<le> fl (a + b)" using s0 by (rule fl_nonneg)
qed

lemma overall_score_error:
  assumes "0 \<le> t" "t \<le> 100" "0 \<le> p" "p \<le> 100" "0 \<le> f" "f \<le> 100"
    "0 \<le> s" "s \<le> 100" "0 \<le> m" "m \<le> 100"
  shows "\<exists>x. calculate_overall_score t p f s m = round_half_even x
           \<and> \<bar>x - weighted_sum t p f s m\<bar> \<le> 1004 * unit_error"
proof -
  define w25 :: rat where "w25 = 25 / 100"
  define w10 :: rat where "w10 = 10 / 100"
  define w15 :: rat where "w15 = 15 / 100"
  have w: "0 \<le> w25" "w25 \<le> 1" "0 \<le> w10" "w10 \<le> 1" "0 \<le> w15" "w15 \<le> 1"
    by (simp_all add: w25_def w10_def w15_def)
  define a1 where "a1 = fl (fl (of_int t) * fl w25)"
  define a2 where "a2 = fl (fl (of_int p) * fl w25)"
  define a3 where "a3 = fl (fl (of_int f) * fl w25)"
  define a4 where "a4 = fl (fl (of_int s) * fl w10)"
  define a5 where "a5 = fl (fl (of_int m) * fl w15)"
  define s2 where "s2 = fl (a1 + a2)"
  define s3 where "s3 = fl (s2 + a3)"
  define s4 where "s4 = fl (s3 + a4)"
  define s5 where "s5 = fl (s4 + a5)"
  have ue: "0 \<le> unit_error" "unit_error \<le> 1 / 10000" by (simp_all add: unit_error_def)
  note T = weighted_term [OF assms(1,2) w(1,2), folded a1_def]
  note P = weighted_term [OF assms(3,4) w(1,2), folded a2_def]
  note F = weighted_term [OF assms(5,6) w(1,2), folded a3_def]
  note S = weighted_term [OF assms(7,8) w(3,4), folded a4_def]
  note M = weighted_term [OF assms(9,10) w(5,6), folded a5_def]
  have b: "(0::rat) \<le> of_int t" "(of_int t::rat) \<le> 100" "(0::rat) \<le> of_int p"
    "(of_int p::rat) \<le> 100" "(0::rat) \<le> of_int f" "(of_int f::rat) \<le> 100"
    "(0::rat) \<le> of_int s" "(of_int s::rat) \<le> 100" "(0::rat) \<le> of_int m"
    "(of_int m::rat) \<le> 100"
    using assms by simp_all
  have c2: "of_int t * w25 + of_int p * w25 \<le> 100"
    using b by (simp add: w25_def)
  have c3: "of_int t * w25 + of_int p * w25 + of_int f * w25 \<le> 100"
    using b by (simp add: w25_def)
  have c4: "of_int t * w25 + of_int p * w25 + of_int f * w25 + of_int s * w10 \<le> 100"
    using b by (simp add: w25_def w10_def)
  have c5: "of_int t * w25 + of_int p * w25 + of_int f * w25 + of_int s * w10
      + of_int m * w15 \<le> 100"
    using b by (simp add: w25_def w10_def w15_def)
  have e2: "200 * unit_error + 200 * unit_error \<le> 1"
    using ue by linarith
  note r2 = rounded_sum [OF T(1) P(1) T(2) P(2) c2 e2, folded s2_def]
  have e3: "200 * unit_error + 200 * unit_error + unit_error + 200 * unit_error \<le> 1"
    using ue by linarith
  note r3 = rounded_sum [OF r2(1) F(1) r2(2) F(2) c3 e3, folded s3_def]
  have e4: "200 * unit_error + 200 * unit_error + unit_error + 200 * unit_error + unit_error
      + 200 * unit_error \<le> 1"
    using ue by linarith
  note r4 = rounded_sum [OF r3(1) S(1) r3(2) S(2) c4 e4, folded s4_def]
  have e5: "200 * unit_error + 200 * unit_error + unit_error + 200 * unit_error + unit_error
      + 200 * unit_error + unit_error + 200 * unit_error \<le> 1"
    using ue by linarith
  note r5 = rounded_sum(2) [OF r4(1) M(1) r4(2) M(2) c5 e5, folded s5_def]
  have ws: "weighted_sum t p f s m = of_int t * w25 + of_int p * w25 + of_int f * w25
      + of_int s * w10 + of_int m * w15"
    by (simp add: weighted_sum_def w25_def w10_def w15_def field_simps)
  have "calculate_overall_score t p f s m = round_half_even s5"
    by (simp add: calculate_overall_score_def Let_def s5_def s4_def s3_def s2_def
        a1_def a2_def a3_def a4_def a5_def w25_def w10_def w15_def)
  moreover have "\<bar>s5 - weighted_sum t p f s m\<bar> \<le> 1004 * unit_error"
    unfolding ws using r5 by linarith
  ultimately show ?thesis by blast
qed


lemma nearest_integer_unique:
  fixes n :: int and q :: rat
  assumes near: "\<bar>of_int n - q\<bar> \<le> 1 / 2" and nohalf: "q - of_int \<lfloor>q\<rfloor> \<noteq> 1 / 2"
  shows "n = round_half_even q" and "n = round_half_up q"
proof -
  define f where "f = \<lfloor>q\<rfloor>"
  have fl: "of_int f \<le> q" "q < of_int f + 1"
    unfolding f_def by linarith+
  have nb: "of_int n \<le> q + 1 / 2" "q - 1 / 2 \<le> of_int n"
    using near by linarith+
  have n_eq: "n = (if q - of_int f < 1 / 2 then f else f + 1)"
  proof (cases "q - of_int f < 1 / 2")
    case True
    have "(of_int n :: rat) < of_int f + 1" using nb True by linarith
    then have "(of_int n :: rat) < of_int (f + 1)" by simp
    moreover have "(of_int f :: rat) - 1 < of_int n" using nb fl by linarith
    then have "(of_int (f - 1) :: rat) < of_int n" by simp
    ultimately have "n < f + 1" "f - 1 < n" by (simp_all only: of_int_less_iff)
    then show ?thesis using True by simp
  next
    case False
    then have gt: "1 / 2 < q - of_int f" using nohalf by (simp add: f_def)
    have "(of_int f :: rat) < of_int n" using nb gt by linarith
    moreover have "(of_int n :: rat) < of_int f + 2" using nb fl by linarith
    then have "(of_int n :: rat) < of_int (f + 2)" by simp
    ultimately have "f < n" "n < f + 2" by (simp_all only: of_int_less_iff)
    then show ?thesis using False by simp
  qed
  show "n = round_half_even q"
    using n_eq nohalf by (auto simp: round_half_even_def Let_def f_def)
  have "round_half_up q = (if q - of_int f < 1 / 2 then f else f + 1)"
    unfolding round_half_up_def using fl by (auto intro!: floor_unique)
  then show "n = round_half_up q" using n_eq by simp
qed

text \<open>
  C3, as stated, says that the overall score is the rounded exact weighted sum. For the
  scores 0, 0, 0, 1 and 36 the exact sum is 5.5, which rounds to 6 with halves to even and
  with halves up alike, and the overall score is 5: the sum of the doubles is just below
  5.5.
\<close>

theorem overall_score_tie_counterexample:
  "calculate_overall_score 0 0 0 1 36 = 5
   \<and> weighted_sum 0 0 0 1 36 = 11 / 2
   \<and> round_half_even (weighted_sum 0 0 0 1 36) = 6
   \<and> round_half_up (weighted_sum 0 0 0 1 36) = 6"
  by code_simp

text \<open>
  C3, amended. For five component scores in [0,100] the overall score is an integer
  nearest to the exact weighted sum: the two differ by at most 1/2. Whenever the exact
  sum is not halfway between two integers, the overall score is the rounded exact sum,
  with halves to even and with halves up alike. Equal component scores give that score as
  the overall score, so five times 80 gives 80.
\<close>

theorem overall_score_nearest:
  assumes "0 \<le> t" "t \<le> 100" "0 \<le> p" "p \<le> 100" "0 \<le> f" "f \<le> 100"
    "0 \<le> s" "s \<le> 100" "0 \<le> m" "m \<le> 100"
  shows "\<bar>of_int (calculate_overall_score t p f s m) - weighted_sum t p f s m\<bar> \<le> 1 / 2
    \<and> (weighted_sum t p f s m - of_int \<lfloor>weighted_sum t p f s m\<rfloor> \<noteq> 1 / 2 \<longrightarrow>
         calculate_overall_score t p f s m = round_half_even (weighted_sum t p f s m)
         \<and> calculate_overall_score t p f s m = round_half_up (weighted_sum t p f s m))
    \<and> (t = p \<and> p = f \<and> f = s \<and> s = m \<longrightarrow> calculate_overall_score t p f s m = t)"
proof -
  define n where "n = calculate_overall_score t p f s m"
  define q where "q = weighted_sum t p f s m"
  define N where "N = 5 * t + 5 * p + 5 * f + 2 * s + 3 * m"
  obtain x where x: "n = round_half_even x" "\<bar>x - q\<bar> \<le> 1004 * unit_error"
    using overall_score_error [OF assms] unfolding n_def q_def by blast
  have qN: "q = of_int N / 20"
    by (simp add: q_def N_def weighted_sum_def field_simps)
  have "\<bar>of_int n - x\<bar> \<le> 1 / 2"
    unfolding x(1) by (rule round_half_even_error)
  moreover have "1004 * unit_error < 1 / 20"
    by (simp add: unit_error_def)
  ultimately have "\<bar>of_int n - q\<bar> < 11 / 20"
    using x(2) by linarith
  then have "\<bar>(of_int (20 * n - N) :: rat)\<bar> < of_int 11"
    unfolding qN by (simp add: abs_less_iff field_simps)
  then have "\<bar>20 * n - N\<bar> < 11"
    by (metis of_int_abs of_int_less_iff)
  then have "\<bar>20 * n - N\<bar> \<le> 10" by simp
  then have "\<bar>(of_int (20 * n - N) :: rat)\<bar> \<le> of_int 10"
    by (metis of_int_abs of_int_le_iff)
  then have near: "\<bar>of_int n - q\<bar> \<le> 1 / 2"
    unfolding qN by (simp add: abs_le_iff field_simps)
  have uniform: "n = t" if "t = p \<and> p = f \<and> f = s \<and> s = m"
  proof -
    have "q = of_int t"
      using that by (simp add: q_def weighted_sum_def)
    then have "\<bar>(of_int (n - t) :: rat)\<bar> < of_int 1"
      using near by simp
    then have "\<bar>n - t\<bar> < 1"
      by (metis of_int_abs of_int_less_iff)
    then show ?thesis by simp
  qed
  show ?thesis
    using near nearest_integer_unique [of n q] uniform
    unfolding n_def q_def by blast
qed

theorem overall_score_nearest_witness:
  "calculate_overall_score 80 80 80 80 80 = 80
   \<and> \<bar>of_int (calculate_overall_score 0 0 0 1 36) - weighted_sum 0 0 0 1 36\<bar> \<le> 1 / 2"
  using overall_score_nearest [of 80 80 80 80 80] overall_score_nearest [of 0 0 0 1 36]
  by simp

lemma overall_score_tie_rounded_up:
  "calculate_overall_score 0 0 0 53 8 = 7
   \<and> weighted_sum 0 0 0 53 8 = 13 / 2
   \<and> round_half_even (weighted_sum 0 0 0 53 8) = 6"
  by code_simp

subsection \<open>Title check\<close>

text \<open>
  C4. A title of exactly 30 characters passes, one of 29 characters fails with code
  \<open>title_too_short\<close> and deduction 5, one of exactly 60 characters passes, one of 61
  characters fails with code \<open>title_too_long\<close> and deduction 3, and an absent title fails
  with deduction 20.
\<close>

theorem title_length_boundaries:
  "(length t = 30 \<longrightarrow> check_title (Some t) = pass)
   \<and> (length t = 29 \<longrightarrow>
        \<not> passed (check_title (Some t)) \<and> deduction (check_title (Some t)) = 5
        \<and> map_option issue_code (issue_of (check_title (Some t))) = Some (Some ''title_too_short''))
   \<and> (length t = 60 \<longrightarrow> check_title (Some t) = pass)
   \<and> (length t = 61 \<longrightarrow>
        \<not> passed (check_title (Some t)) \<and> deduction (check_title (Some t)) = 3
        \<and> map_option issue_code (issue_of (check_title (Some t))) = Some (Some ''title_too_long''))
   \<and> \<not> passed (check_title None) \<and> deduction (check_title None) = 20"
  by (auto simp: check_title_def truthy_def Let_def)

theorem title_length_boundaries_witness:
  "check_title (Some (replicate 30 CHR ''t'')) = pass
   \<and> deduction (check_title (Some (replicate 29 CHR ''t''))) = 5
   \<and> check_title (Some (replicate 60 CHR ''t'')) = pass
   \<and> deduction (check_title (Some (replicate 61 CHR ''t''))) = 3"
  using title_length_boundaries [of "replicate 30 CHR ''t''"]
    title_length_boundaries [of "replicate 29 CHR ''t''"]
    title_length_boundaries [of "replicate 60 CHR ''t''"]
    title_length_boundaries [of "replicate 61 CHR ''t''"]
  by simp

subsection \<open>Mixed content\<close>

text \<open>
  C5. On a page whose URL begins with \<open>https://\<close>, with exactly one image source and no
  script or stylesheet beginning with \<open>http://\<close>, the mixed-content check fails with
  code \<open>mixed_content\<close>, deduction 15 and a message that reports 1 HTTP resource. On a
  page whose URL does not begin with \<open>https://\<close> the check passes whatever the resources.
\<close>

theorem mixed_content_check:
  "(startswith (pd_url page) ''https://''
      \<and> length (filter (\<lambda>img. startswith (img_src img) ''http://'') (pd_images page)) = 1
      \<and> filter (\<lambda>s. startswith (script_src s) ''http://'') (pd_scripts page) = []
      \<and> filter (\<lambda>s. startswith (css_href s) ''http://'') (pd_stylesheets page) = []
    \<longrightarrow> check_mixed_content page =
          fail ''error'' ''mixed_content''
            ''Mixed content detected (1 HTTP resources on HTTPS page)''
            (Some ''Update all resources to use HTTPS'') ''high'' 15
        \<and> \<not> passed (check_mixed_content page) \<and> deduction (check_mixed_content page) = 15)
   \<and> (\<not> startswith (pd_url page) ''https://'' \<longrightarrow> check_mixed_content page = pass)"
  by (simp add: check_mixed_content_def Let_def str_nat_one)

theorem mixed_content_check_witness:
  "deduction (check_mixed_content
      (good_page\<lparr>pd_images := [\<lparr>img_src = ''http://cdn.example.com/a.png'', img_alt = ''a'',
          has_alt = True, img_loading = [], img_width = [], img_height = []\<rparr>]\<rparr>)) = 15
   \<and> check_mixed_content
        (good_page\<lparr>pd_url := ''http://example.com/guide'',
           pd_scripts := [\<lparr>script_src = ''http://cdn.example.com/a.js'', script_async = False,
                          script_defer = False\<rparr>]\<rparr>) = pass"
  using mixed_content_check [of "good_page\<lparr>pd_images := [\<lparr>img_src = ''http://cdn.example.com/a.png'',
          img_alt = ''a'', has_alt = True, img_loading = [], img_width = [],
          img_height = []\<rparr>]\<rparr>"]
    mixed_content_check [of "good_page\<lparr>pd_url := ''http://example.com/guide'',
           pd_scripts := [\<lparr>script_src = ''http://cdn.example.com/a.js'', script_async = False,
                          script_defer = False\<rparr>]\<rparr>"]
  by (simp add: good_page_def startswith_def)

subsection \<open>Performance analyzer without its metrics provider\<close>

text \<open>
  C6. When no credential is configured, or the request to the metrics provider raises, or
  the provider answers with a status other than 200, the performance report has score 50,
  each of its six checks is \<open>None\<close>, and its only issue has type \<open>info\<close>.
\<close>

theorem performance_unavailable:
  "api_key = [] \<or> provider = Raises
     \<or> (\<exists>resp. provider = Returns resp \<and> ps_status resp \<noteq> 200) \<Longrightarrow>
   r_score (performance_analyze api_key provider u) = 50
   \<and> map fst (r_checks (performance_analyze api_key provider u)) =
        [''lcp'', ''fcp'', ''cls'', ''imageOptimization'', ''bundleSize'', ''lazyLoading'']
   \<and> map snd (r_checks (performance_analyze api_key provider u)) = replicate 6 None
   \<and> (\<exists>i. r_issues (performance_analyze api_key provider u) = [i] \<and> issue_type i = ''info'')"
  by (auto simp: performance_analyze_def get_fallback_analysis_def numeral_eq_Suc)

theorem performance_unavailable_witness:
  "r_score (performance_analyze [] (Returns \<lparr>ps_status = 200, ps_json = None\<rparr>)
      ''https://example.com/'') = 50
   \<and> r_score (performance_analyze ''key'' Raises ''https://example.com/'') = 50
   \<and> r_score (performance_analyze ''key'' (Returns \<lparr>ps_status = 503, ps_json = None\<rparr>)
        ''https://example.com/'') = 50"
  using performance_unavailable [of "[]" "Returns \<lparr>ps_status = 200, ps_json = None\<rparr>"
      "''https://example.com/''"]
    performance_unavailable [of "''key''" Raises "''https://example.com/''"]
    performance_unavailable [of "''key''" "Returns \<lparr>ps_status = 503, ps_json = None\<rparr>"
      "''https://example.com/''"]
  by simp

subsection \<open>Mobile score\<close>

text \<open>
  C10. The mobile score is at least 40 for every page: it is 100 less the four
  deductions, which are at most 20, 15, 10 and 15, so the final \<open>max(0, score)\<close> never
  changes it.
\<close>

theorem mobile_score_at_least_40:
  "40 \<le> r_score (calculate_mobile_score page performance)
   \<and> r_score (calculate_mobile_score page performance) =
       100 - (if pd_viewport_meta page then 0 else 20)
           - (case pd_small_touch_targets page of None \<Rightarrow> 0
              | Some n \<Rightarrow> if n > 0 then min (n * 2) 15 else 0)
           - (case pd_small_text_count page of None \<Rightarrow> 0 | Some n \<Rightarrow> if n > 5 then 10 else 0)
           - (if pd_horizontal_scroll page = Some True then 15 else 0)"
  by (auto simp: calculate_mobile_score_def Let_def min_def split: option.split)

end
